(* ===== verification/Prelude.thy ===== *)
theory Prelude
  imports Main
begin

text \<open>
  Shared vocabulary of the development: the rule collections the component theories fill,
  the sequencing of fallible results used by the renderer (the first child that throws aborts
  the whole render, as an exception in React's render loop does), and the UTF-8 encoding that
  turns the emoji literals of the JSX sources into the bytes the generated HTML carries.
\<close>

named_theorems page_defs
  "definitions of the site's element trees, unfolded when a page is rendered symbolically"

named_theorems dom_simps
  "evaluation rules of the DOM queries (text content, headings, anchors)"

type_synonym attrs = "(string \<times> string) list"

subsection \<open>Sequencing fallible results\<close>

primrec sequence :: "('e + 'a) list \<Rightarrow> 'e + 'a list" where
  "sequence [] = Inr []"
| "sequence (x # xs) =
     (case x of
        Inl e \<Rightarrow> Inl e
      | Inr y \<Rightarrow> (case sequence xs of Inl e \<Rightarrow> Inl e | Inr ys \<Rightarrow> Inr (y # ys)))"

subsection \<open>UTF-8\<close>

text \<open>
  The JSX sources are UTF-8 files and the emitted HTML is UTF-8; a HOL \<open>string\<close> is a list
  of bytes, so a non-ASCII literal is written by its code points and encoded here.
\<close>

definition utf8_cp :: "nat \<Rightarrow> nat list" where
  "utf8_cp c =
    (if c < 0x80 then [c]
     else if c < 0x800 then [0xC0 + c div 64, 0x80 + c mod 64]
     else if c < 0x10000 then [0xE0 + c div 4096, 0x80 + (c div 64) mod 64, 0x80 + c mod 64]
     else [0xF0 + c div 262144, 0x80 + (c div 4096) mod 64, 0x80 + (c div 64) mod 64,
           0x80 + c mod 64])"

definition utf8 :: "nat list \<Rightarrow> string" where
  "utf8 cs = map char_of (concat (map utf8_cp cs))"

text \<open>
  Decoding, as a browser does when it reads the page: a lead byte fixes the length of the
  sequence, every following byte is a continuation byte, and overlong forms, surrogates and
  values past \<open>0x10FFFF\<close> are rejected (\<open>None\<close>).
\<close>

definition utf8_cont :: "nat \<Rightarrow> bool" where
  "utf8_cont b \<longleftrightarrow> 0x80 \<le> b \<and> b < 0xC0"

definition valid_cp :: "nat \<Rightarrow> bool" where
  "valid_cp c \<longleftrightarrow> c < 0x110000 \<and> \<not> (0xD800 \<le> c \<and> c < 0xE000)"

fun utf8_decode :: "nat list \<Rightarrow> nat list option" where
  "utf8_decode [] = Some []"
| "utf8_decode (b # bs) =
     (if b < 0x80 then map_option (Cons b) (utf8_decode bs)
      else if 0xC2 \<le> b \<and> b < 0xE0 then
        (case bs of
           c1 # rest \<Rightarrow>
             if utf8_cont c1 then map_option (Cons ((b - 0xC0) * 64 + (c1 - 0x80))) (utf8_decode rest)
             else None
         | [] \<Rightarrow> None)
      else if 0xE0 \<le> b \<and> b < 0xF0 then
        (case bs of
           c1 # c2 # rest \<Rightarrow>
             (let v = (b - 0xE0) * 4096 + (c1 - 0x80) * 64 + (c2 - 0x80) in
              if utf8_cont c1 \<and> utf8_cont c2 \<and> 0x800 \<le> v \<and> \<not> (0xD800 \<le> v \<and> v < 0xE000)
              then map_option (Cons v) (utf8_decode rest) else None)
         | _ \<Rightarrow> None)
      else if 0xF0 \<le> b \<and> b < 0xF5 then
        (case bs of
           c1 # c2 # c3 # rest \<Rightarrow>
             (let v = (b - 0xF0) * 262144 + (c1 - 0x80) * 4096 + (c2 - 0x80) * 64 + (c3 - 0x80) in
              if utf8_cont c1 \<and> utf8_cont c2 \<and> utf8_cont c3 \<and> 0x10000 \<le> v \<and> v < 0x110000
              then map_option (Cons v) (utf8_decode rest) else None)
         | _ \<Rightarrow> None)
      else None)"

subsection \<open>Lemmas on sequencing\<close>

lemma sequence_Inr_iff: "sequence xs = Inr ys \<longleftrightarrow> xs = map Inr ys"
proof (induction xs arbitrary: ys)
  case Nil
  then show ?case by auto
next
  case (Cons x xs)
  show ?case
  proof (cases x)
    case (Inl e)
    then show ?thesis by auto
  next
    case (Inr y)
    show ?thesis
    proof (cases "sequence xs")
      case (Inl e)
      with Cons.IH have "\<forall>zs. xs \<noteq> map Inr zs" by auto
      with Inl \<open>x = Inr y\<close> show ?thesis by (cases ys) auto
    next
      case (Inr zs)
      with Cons.IH [of zs] have "xs = map Inr zs" by simp
      with Inr \<open>x = Inr y\<close> show ?thesis by (cases ys) auto
    qed
  qed
qed

lemma sequence_map_Inr [simp]: "sequence (map Inr ys) = Inr ys"
  by (simp add: sequence_Inr_iff)

lemma sequence_map_Inr_comp [simp]: "sequence (map (Inr \<circ> g) xs) = Inr (map g xs)"
  by (simp add: sequence_Inr_iff)

lemma sequence_append:
  "sequence (xs @ ys) =
     (case sequence xs of
        Inl e \<Rightarrow> Inl e
      | Inr as \<Rightarrow> (case sequence ys of Inl e \<Rightarrow> Inl e | Inr bs \<Rightarrow> Inr (as @ bs)))"
  by (induction xs) (auto split: sum.splits)

lemma sequence_Inl_first:
  "sequence xs = Inl e \<Longrightarrow> \<exists>ys zs. xs = map Inr ys @ Inl e # zs"
proof (induction xs)
  case Nil
  then show ?case by simp
next
  case (Cons x xs)
  show ?case
  proof (cases x)
    case (Inl e')
    with Cons.prems have "e' = e" by simp
    with Inl show ?thesis by (intro exI [of _ "[]"] exI [of _ xs]) simp
  next
    case (Inr y)
    with Cons.prems have "sequence xs = Inl e" by (auto split: sum.splits)
    with Cons.IH obtain ys zs where "xs = map Inr ys @ Inl e # zs" by blast
    with Inr show ?thesis by (intro exI [of _ "y # ys"]) auto
  qed
qed

text \<open>
  Results that are stable under a change of the producing function (more fuel, in the
  renderer) keep the sequenced result stable: the sequence only looks at the elements up to
  its first error, and those are stable.
\<close>

lemma sequence_map_stable:
  assumes "\<And>x. x \<in> set xs \<Longrightarrow> f x \<noteq> Inl e0 \<Longrightarrow> g x = f x"
    and "sequence (map f xs) \<noteq> Inl e0"
  shows "sequence (map g xs) = sequence (map f xs)"
  using assms
proof (induction xs)
  case Nil
  then show ?case by simp
next
  case (Cons x xs)
  show ?case
  proof (cases "f x")
    case (Inl e)
    with Cons.prems(2) have "e \<noteq> e0" by simp
    with Inl Cons.prems(1) have "g x = f x" by simp
    with Inl show ?thesis by simp
  next
    case (Inr y)
    with Cons.prems(1) have gx: "g x = Inr y" by simp
    from Inr Cons.prems(2) have "sequence (map f xs) \<noteq> Inl e0"
      by (auto split: sum.splits)
    with Cons.prems(1) Cons.IH have "sequence (map g xs) = sequence (map f xs)" by simp
    with gx Inr show ?thesis by simp
  qed
qed

text \<open>A sequence fails with \<open>e\<close> only if one of its elements does.\<close>

lemma sequence_map_not_Inl:
  "(\<And>x. x \<in> set xs \<Longrightarrow> f x \<noteq> Inl e) \<Longrightarrow> sequence (map f xs) \<noteq> Inl e"
  by (induction xs) (auto split: sum.splits)

subsection \<open>Lists\<close>

lemma fold_max_ge: "x \<in> set xs \<or> x = a \<Longrightarrow> (x::nat) \<le> fold max xs a"
proof -
  assume "x \<in> set xs \<or> x = a"
  then have "x \<le> Max (set (a # xs))" by (auto intro: Max_ge)
  then show ?thesis by (simp only: Max.set_eq_fold)
qed

lemma concat_map_singleton: "concat (map (\<lambda>x. [g x]) xs) = map g xs"
  by (induction xs) auto

subsection \<open>Lemmas on UTF-8\<close>

lemma utf8_append [simp]: "utf8 (xs @ ys) = utf8 xs @ utf8 ys"
  by (simp add: utf8_def)

lemma utf8_cp_length: "length (utf8_cp c) \<in> {1, 2, 3, 4}"
  by (simp add: utf8_cp_def)

lemma utf8_cp_ascii: "c < 0x80 \<Longrightarrow> utf8_cp c = [c]"
  by (simp add: utf8_cp_def)

lemma utf8_cp_lead_non_ascii: "0x80 \<le> c \<Longrightarrow> c < 0x110000 \<Longrightarrow> 0xC0 \<le> hd (utf8_cp c)"
  by (simp add: utf8_cp_def)

lemma div4096_split: "(c::nat) div 4096 * 64 + c div 64 mod 64 = c div 64"
proof -
  have "c div 4096 = c div 64 div 64" by (simp add: div_mult2_eq)
  then show ?thesis by simp
qed
lemma div262144_split: "(c::nat) div 262144 * 64 + c div 4096 mod 64 = c div 4096"
proof -
  have "c div 262144 = c div 4096 div 64" by (simp add: div_mult2_eq)
  then show ?thesis by simp
qed
lemma utf8_value3: "(c::nat) div 4096 * 4096 + c div 64 mod 64 * 64 + c mod 64 = c"
proof -
  have "c div 4096 * 4096 + c div 64 mod 64 * 64 = (c div 4096 * 64 + c div 64 mod 64) * 64"
    by simp
  also have "\<dots> = c div 64 * 64" by (simp only: div4096_split)
  finally show ?thesis by simp
qed
lemma utf8_value4:
  "(c::nat) div 262144 * 262144 + c div 4096 mod 64 * 4096 + c div 64 mod 64 * 64 + c mod 64 = c"
proof -
  have "c div 262144 * 262144 + c div 4096 mod 64 * 4096 = (c div 262144 * 64 + c div 4096 mod 64) * 4096"
    by simp
  also have "\<dots> = c div 4096 * 4096" by (simp only: div262144_split)
  finally show ?thesis using utf8_value3 [of c] by simp
qed

lemma utf8_decode_cp:
  assumes "valid_cp c"
  shows "utf8_decode (utf8_cp c @ rest) = map_option (Cons c) (utf8_decode rest)"
proof -
  consider "c < 0x80" | "0x80 \<le> c" "c < 0x800" | "0x800 \<le> c" "c < 0x10000" | "0x10000 \<le> c"
    by linarith
  then show ?thesis
  proof cases
    case 1
    then show ?thesis by (simp add: utf8_cp_def)
  next
    case 2
    then have "2 \<le> c div 64" "c div 64 < 32"
      by (simp_all add: less_eq_div_iff_mult_less_eq div_less_iff_less_mult)
    with 2 show ?thesis by (simp add: utf8_cp_def utf8_cont_def)
  next
    case 3
    then have "c div 4096 < 16" by (simp add: div_less_iff_less_mult)
    with 3 assms show ?thesis
      by (simp add: utf8_cp_def utf8_cont_def valid_cp_def Let_def utf8_value3)
  next
    case 4
    with assms have "c div 262144 < 5" by (simp add: div_less_iff_less_mult valid_cp_def)
    with 4 assms show ?thesis
      by (simp add: utf8_cp_def utf8_cont_def valid_cp_def Let_def utf8_value4)
  qed
qed
lemma utf8_decode_concat:
  "list_all valid_cp cs \<Longrightarrow> utf8_decode (concat (map utf8_cp cs)) = Some cs"
  by (induction cs) (simp_all add: utf8_decode_cp)

lemma utf8_cp_bytes:
  assumes "valid_cp c" and "b \<in> set (utf8_cp c)"
  shows "b < 256"
proof -
  consider "c < 0x80" | "0x80 \<le> c" "c < 0x800" | "0x800 \<le> c" "c < 0x10000" | "0x10000 \<le> c"
    by linarith
  then show ?thesis
  proof cases
    case 1
    with assms(2) show ?thesis by (simp add: utf8_cp_def)
  next
    case 2
    then have "c div 64 < 32" by (simp add: div_less_iff_less_mult)
    with 2 assms(2) show ?thesis by (auto simp: utf8_cp_def)
  next
    case 3
    then have "c div 4096 < 16" by (simp add: div_less_iff_less_mult)
    with 3 assms(2) show ?thesis by (auto simp: utf8_cp_def)
  next
    case 4
    with assms(1) have "c div 262144 < 5" by (simp add: div_less_iff_less_mult valid_cp_def)
    with 4 assms(2) show ?thesis by (auto simp: utf8_cp_def)
  qed
qed

lemma utf8_bytes: "list_all valid_cp cs \<Longrightarrow> map of_char (utf8 cs) = concat (map utf8_cp cs)"
proof -
  assume "list_all valid_cp cs"
  then have "\<forall>b \<in> set (concat (map utf8_cp cs)). b < 256"
    by (auto simp: list_all_iff dest: utf8_cp_bytes)
  then show ?thesis by (auto simp: utf8_def of_char_of intro!: map_idI)
qed

lemma utf8_roundtrip: "list_all valid_cp cs \<Longrightarrow> utf8_decode (map of_char (utf8 cs)) = Some cs"
  by (simp add: utf8_bytes utf8_decode_concat)

subsection \<open>Decoding is sound\<close>

text \<open>
  The projection side of the round trip: a byte string the decoder accepts is the encoding
  of the valid code points it decodes to.  Per sequence length, the decoded value re-encodes
  to the same bytes.
\<close>

lemma div_mod_digit: "(y::nat) < m \<Longrightarrow> (a * m + y) div m = a \<and> (a * m + y) mod m = y"
  by simp

lemma utf8_cp_2:
  assumes "0xC2 \<le> b" "b < 0xE0" "utf8_cont c1"
  shows "valid_cp ((b - 0xC0) * 64 + (c1 - 0x80)) \<and> utf8_cp ((b - 0xC0) * 64 + (c1 - 0x80)) = [b, c1]"
proof -
  define a x where "a = b - 0xC0" and "x = c1 - 0x80"
  define v where "v = a * 64 + x"
  have x: "x < 64" and b: "b = 0xC0 + a" and c1: "c1 = 0x80 + x" and a: "2 \<le> a" "a < 32"
    using assms by (auto simp: a_def x_def utf8_cont_def)
  have "v div 64 = a" "v mod 64 = x" using x by (simp_all add: v_def)
  moreover have "0x80 \<le> v" "v < 0x800" using a x unfolding v_def by linarith+
  ultimately have "valid_cp v \<and> utf8_cp v = [b, c1]"
    by (simp add: utf8_cp_def valid_cp_def b c1)
  then show ?thesis by (simp add: v_def a_def x_def)
qed

lemma utf8_cp_3:
  assumes "0xE0 \<le> b" "b < 0xF0" "utf8_cont c1" "utf8_cont c2"
    and "0x800 \<le> (b - 0xE0) * 4096 + (c1 - 0x80) * 64 + (c2 - 0x80)"
    and "\<not> (0xD800 \<le> (b - 0xE0) * 4096 + (c1 - 0x80) * 64 + (c2 - 0x80) \<and>
           (b - 0xE0) * 4096 + (c1 - 0x80) * 64 + (c2 - 0x80) < 0xE000)"
  shows "valid_cp ((b - 0xE0) * 4096 + (c1 - 0x80) * 64 + (c2 - 0x80)) \<and>
         utf8_cp ((b - 0xE0) * 4096 + (c1 - 0x80) * 64 + (c2 - 0x80)) = [b, c1, c2]"
proof -
  define a x y where "a = b - 0xE0" and "x = c1 - 0x80" and "y = c2 - 0x80"
  define v where "v = a * 4096 + x * 64 + y"
  have x: "x < 64" and y: "y < 64" and a: "a < 16"
    and b: "b = 0xE0 + a" and c1: "c1 = 0x80 + x" and c2: "c2 = 0x80 + y"
    using assms(1-4) by (auto simp: a_def x_def y_def utf8_cont_def)
  have v: "v = (a * 64 + x) * 64 + y" by (simp add: v_def algebra_simps)
  have "v div 64 = a * 64 + x \<and> v mod 64 = y" unfolding v by (rule div_mod_digit [OF y])
  moreover have "(a * 64 + x) mod 64 = x" "v div 4096 = a"
    using x y by (simp_all add: v_def)
  moreover have "v < 0x10000" using a x y unfolding v_def by linarith
  moreover have "0x800 \<le> v" "\<not> (0xD800 \<le> v \<and> v < 0xE000)"
    using assms(5,6) by (simp_all add: v_def a_def x_def y_def)
  ultimately have "valid_cp v \<and> utf8_cp v = [b, c1, c2]"
    by (simp add: utf8_cp_def valid_cp_def b c1 c2)
  then show ?thesis by (simp add: v_def a_def x_def y_def)
qed

lemma utf8_cp_4:
  assumes "0xF0 \<le> b" "b < 0xF5" "utf8_cont c1" "utf8_cont c2" "utf8_cont c3"
    and "0x10000 \<le> (b - 0xF0) * 262144 + (c1 - 0x80) * 4096 + (c2 - 0x80) * 64 + (c3 - 0x80)"
    and "(b - 0xF0) * 262144 + (c1 - 0x80) * 4096 + (c2 - 0x80) * 64 + (c3 - 0x80) < 0x110000"
  shows "valid_cp ((b - 0xF0) * 262144 + (c1 - 0x80) * 4096 + (c2 - 0x80) * 64 + (c3 - 0x80)) \<and>
         utf8_cp ((b - 0xF0) * 262144 + (c1 - 0x80) * 4096 + (c2 - 0x80) * 64 + (c3 - 0x80)) =
           [b, c1, c2, c3]"
proof -
  define a x y z where "a = b - 0xF0" and "x = c1 - 0x80" and "y = c2 - 0x80" and "z = c3 - 0x80"
  define v where "v = a * 262144 + x * 4096 + y * 64 + z"
  have x: "x < 64" and y: "y < 64" and z: "z < 64" and b: "b = 0xF0 + a"
    and c1: "c1 = 0x80 + x" and c2: "c2 = 0x80 + y" and c3: "c3 = 0x80 + z"
    using assms(1-5) by (auto simp: a_def x_def y_def z_def utf8_cont_def)
  have v64: "v = ((a * 64 + x) * 64 + y) * 64 + z" by (simp add: v_def algebra_simps)
  have v4096: "v = (a * 64 + x) * 4096 + (y * 64 + z)" by (simp add: v_def algebra_simps)
  have v262144: "v = a * 262144 + (x * 4096 + y * 64 + z)" by (simp add: v_def algebra_simps)
  have yz: "y * 64 + z < 4096" and xyz: "x * 4096 + y * 64 + z < 262144" using x y z by linarith+
  have "v div 64 = (a * 64 + x) * 64 + y \<and> v mod 64 = z" unfolding v64 by (rule div_mod_digit [OF z])
  moreover have "v div 4096 = a * 64 + x" using div_mod_digit [OF yz] by (simp only: v4096)
  moreover have "v div 262144 = a" using div_mod_digit [OF xyz] by (simp only: v262144)
  moreover have "((a * 64 + x) * 64 + y) mod 64 = y" "(a * 64 + x) mod 64 = x"
    using div_mod_digit [OF y] div_mod_digit [OF x] by blast+
  moreover have "0x10000 \<le> v" "v < 0x110000"
    using assms(6,7) by (simp_all add: v_def a_def x_def y_def z_def)
  ultimately have "valid_cp v \<and> utf8_cp v = [b, c1, c2, c3]"
    by (simp add: utf8_cp_def valid_cp_def b c1 c2 c3)
  then show ?thesis by (simp add: v_def a_def x_def y_def z_def)
qed

lemma utf8_decode_sound:
  "utf8_decode bs = Some cs \<Longrightarrow> list_all valid_cp cs \<and> concat (map utf8_cp cs) = bs"
proof (induction bs arbitrary: cs rule: utf8_decode.induct)
  case (2 b bs)
  consider "b < 0x80" | "\<not> b < 0x80" "0xC2 \<le> b \<and> b < 0xE0"
    | "\<not> b < 0x80" "\<not> (0xC2 \<le> b \<and> b < 0xE0)" "0xE0 \<le> b \<and> b < 0xF0"
    | "\<not> b < 0x80" "\<not> (0xC2 \<le> b \<and> b < 0xE0)" "\<not> (0xE0 \<le> b \<and> b < 0xF0)"
      "0xF0 \<le> b \<and> b < 0xF5"
    | "\<not> b < 0x80" "\<not> (0xC2 \<le> b \<and> b < 0xE0)" "\<not> (0xE0 \<le> b \<and> b < 0xF0)"
      "\<not> (0xF0 \<le> b \<and> b < 0xF5)" by blast
  then show ?case
  proof cases
    case 1
    with "2.prems" obtain cs' where "utf8_decode bs = Some cs'" "cs = b # cs'" by auto
    with 1 "2.IH"(1) [OF 1] show ?thesis by (simp add: utf8_cp_def valid_cp_def)
  next
    case 2
    with "2.prems" obtain c1 rest where bs: "bs = c1 # rest" by (cases bs) auto
    with 2 "2.prems" obtain cs' where c: "utf8_cont c1" "utf8_decode rest = Some cs'"
      and cs: "cs = ((b - 0xC0) * 64 + (c1 - 0x80)) # cs'"
      by (auto split: if_splits)
    with 2 "2.IH"(2) [OF 2 bs] utf8_cp_2 [of b c1] bs show ?thesis by simp
  next
    case 3
    with "2.prems" obtain c1 c2 rest where bs: "bs = c1 # c2 # rest"
      by (cases bs rule: remdups_adj.cases) (auto simp: Let_def)
    let ?v = "(b - 0xE0) * 4096 + (c1 - 0x80) * 64 + (c2 - 0x80)"
    from 3 "2.prems" bs obtain cs' where
      ok: "utf8_cont c1 \<and> utf8_cont c2 \<and> 0x800 \<le> ?v \<and> \<not> (0xD800 \<le> ?v \<and> ?v < 0xE000)"
      and r: "utf8_decode rest = Some cs'" and cs: "cs = ?v # cs'"
      by (auto simp: Let_def split: if_splits)
    with 3 "2.IH"(3) [OF 3, of c1 "c2 # rest" c2 rest ?v] utf8_cp_3 [of b c1 c2] bs
    show ?thesis by simp
  next
    case 4
    with "2.prems" obtain c1 c2 c3 rest where bs: "bs = c1 # c2 # c3 # rest"
      by (auto simp: Let_def split: if_splits list.splits)
    let ?v = "(b - 0xF0) * 262144 + (c1 - 0x80) * 4096 + (c2 - 0x80) * 64 + (c3 - 0x80)"
    from 4 "2.prems" bs obtain cs' where
      ok: "utf8_cont c1 \<and> utf8_cont c2 \<and> utf8_cont c3 \<and> 0x10000 \<le> ?v \<and> ?v < 0x110000"
      and r: "utf8_decode rest = Some cs'" and cs: "cs = ?v # cs'"
      by (auto simp: Let_def split: if_splits)
    with 4 "2.IH"(4) [OF 4, of c1 "c2 # c3 # rest" c2 "c3 # rest" c3 rest ?v] utf8_cp_4 [of b c1 c2 c3] bs
    show ?thesis by simp
  next
    case 5 with "2.prems" show ?thesis by simp
  qed
qed simp

subsection \<open>ASCII strings\<close>

lemma of_char_ascii: "of_char (Char b0 b1 b2 b3 b4 b5 b6 False) < (0x80::nat)"
  by (simp add: of_char_def)

lemma utf8_ascii: "list_all (\<lambda>c. of_char c < (0x80::nat)) s \<Longrightarrow> utf8 (map of_char s) = s"
  by (induction s) (simp_all add: utf8_def utf8_cp_ascii)

lemma ascii_valid: "list_all (\<lambda>c. of_char c < (0x80::nat)) s \<Longrightarrow> list_all valid_cp (map of_char s)"
  by (induction s) (simp_all add: valid_cp_def)

end
