(* ===== verification/VDom.thy ===== *)
theory VDom
  imports Prelude
begin

text \<open>
  The execution model the site's JSX runs on: React elements as produced by
  \<open>React.createElement(type, props, ...children)\<close> (the compiled form of every JSX
  expression of the sources), and the React DOM mount that turns an element tree into DOM
  nodes by calling function components with their props.  The type of components is a
  parameter \<open>'c\<close>: the site fixes it to its own components in \<open>Theme\<close>, and a component
  environment \<open>'c body\<close> says what each component returns.

  Rendering is modelled with fuel (each element costs one unit): React itself has no bound,
  and a component that renders itself would not return; the fuel makes that \<open>OutOfFuel\<close>.
  The lemmas below show that more fuel never changes a result, and that a tree of host
  elements renders to itself, whatever the components are.
\<close>

subsection \<open>Elements and DOM\<close>

text \<open>
  The \<open>type\<close> of an element: a host tag (\<open>'div'\<close>), a function component, the fragment
  \<open><>...</>\<close>, or a value that is neither (JSX \<open><Svg/>\<close> where \<open>Svg\<close> is
  \<open>undefined\<close>), on which React throws when it mounts the element.
\<close>

datatype 'c etype = Host string | Fn 'c | Fragment | Undef

text \<open>
  Prop values as the sources use them: strings, components (the \<open>Svg\<close> of a feature) and
  elements (the \<open>description\<close> fragment).  An element carries its type, its \<open>key\<close> (React
  stores \<open>'' + key\<close>; the numeric keys of the sources are kept as numbers, which is
  injective the same way), its props and its children.
\<close>

datatype 'c pval = PStr string | PFn 'c | PNode "'c node"
and 'c node =
    El "'c etype" "nat option" "(string \<times> 'c pval) list" "'c node list"
  | Text string

type_synonym 'c props = "(string \<times> 'c pval) list"

type_synonym 'c body = "'c \<Rightarrow> 'c props \<Rightarrow> 'c node list \<Rightarrow> 'c node"

datatype dom = DElem string attrs "dom list" | DText string

datatype render_error = OutOfFuel | InvalidElementType

text \<open>\<open><>...</>\<close> with the given children.\<close>

definition frag :: "'c node list \<Rightarrow> 'c node" where
  "frag cs = El Fragment None [] cs"

text \<open>
  A JSX expression container \<open>{x}\<close> in child position: a string is a text node, an
  element is itself, \<open>undefined\<close> renders nothing, and a function is not a valid child
  (React warns and renders nothing).
\<close>

fun child :: "'c pval option \<Rightarrow> 'c node" where
  "child (Some (PStr s)) = Text s"
| "child (Some (PNode n)) = n"
| "child (Some (PFn c)) = frag []"
| "child None = frag []"

text \<open>The type of \<open><X .../>\<close> when \<open>X\<close> is a variable holding the given prop value.\<close>

fun etype_of :: "'c pval option \<Rightarrow> 'c etype" where
  "etype_of (Some (PFn c)) = Fn c"
| "etype_of (Some (PStr s)) = Host s"
| "etype_of (Some (PNode n)) = Undef"
| "etype_of None = Undef"

text \<open>
  The attributes React DOM sets on a host element: its string props (the only kind the
  sources pass to host elements), in order.
\<close>

definition host_attrs :: "'c props \<Rightarrow> attrs" where
  "host_attrs ps = concat (map (\<lambda>(k, v). case v of PStr s \<Rightarrow> [(k, s)] | _ \<Rightarrow> []) ps)"

subsection \<open>Mounting an element tree\<close>

text \<open>
  A host element becomes one DOM element whose children are its rendered children, a
  fragment contributes its rendered children, a text is a text node, a function component
  is called with its props and children and its result is rendered; an invalid type throws.
  The children are rendered left to right and the first error aborts the render.
\<close>

fun render :: "'c body \<Rightarrow> nat \<Rightarrow> 'c node \<Rightarrow> render_error + dom list" where
  "render b 0 x = Inl OutOfFuel"
| "render b (Suc n) (Text s) = Inr [DText s]"
| "render b (Suc n) (El (Host t) k ps cs) =
     (case sequence (map (render b n) cs) of
        Inl e \<Rightarrow> Inl e
      | Inr ds \<Rightarrow> Inr [DElem t (host_attrs ps) (concat ds)])"
| "render b (Suc n) (El Fragment k ps cs) =
     (case sequence (map (render b n) cs) of
        Inl e \<Rightarrow> Inl e
      | Inr ds \<Rightarrow> Inr (concat ds))"
| "render b (Suc n) (El (Fn c) k ps cs) = render b n (b c ps cs)"
| "render b (Suc n) (El Undef k ps cs) = Inl InvalidElementType"

text \<open>
  The function components a render calls, in call order, with the same fuel: the trace of
  the mount.  (After an \<open>InvalidElementType\<close> error React stops; the trace of such a
  render is only meaningful up to the error.)
\<close>

fun calls :: "'c body \<Rightarrow> nat \<Rightarrow> 'c node \<Rightarrow> 'c list" where
  "calls b 0 x = []"
| "calls b (Suc n) (Text s) = []"
| "calls b (Suc n) (El (Host t) k ps cs) = concat (map (calls b n) cs)"
| "calls b (Suc n) (El Fragment k ps cs) = concat (map (calls b n) cs)"
| "calls b (Suc n) (El (Fn c) k ps cs) = c # calls b n (b c ps cs)"
| "calls b (Suc n) (El Undef k ps cs) = []"

subsection \<open>Queries on the DOM\<close>

text \<open>\<open>Node.textContent\<close>: the text of a node and its descendants, in document order.\<close>

fun text_content :: "dom \<Rightarrow> string" where
  "text_content (DText s) = s"
| "text_content (DElem t as ds) = concat (map text_content ds)"

text \<open>The text nodes, in document order.\<close>

fun texts :: "dom \<Rightarrow> string list" where
  "texts (DText s) = [s]"
| "texts (DElem t as ds) = concat (map texts ds)"

text \<open>The elements with a given tag, in document order (\<open>getElementsByTagName\<close>).\<close>

fun by_tag :: "string \<Rightarrow> dom \<Rightarrow> dom list" where
  "by_tag t' (DText s) = []"
| "by_tag t' (DElem t as ds) = (if t = t' then [DElem t as ds] else []) @ concat (map (by_tag t') ds)"

text \<open>An attribute of an element (\<open>getAttribute\<close>).\<close>

fun attr :: "dom \<Rightarrow> string \<Rightarrow> string option" where
  "attr (DElem t as ds) k = map_of as k"
| "attr (DText s) k = None"

text \<open>The tree without its \<open>className\<close> attributes: what does not depend on the style sheets.\<close>

fun strip_class :: "dom \<Rightarrow> dom" where
  "strip_class (DText s) = DText s"
| "strip_class (DElem t as ds) =
     DElem t (filter (\<lambda>(k, v). k \<noteq> ''className'') as) (map strip_class ds)"

text \<open>The levels of the \<open>h1\<close>..\<open>h6\<close> elements, in document order (the page outline).\<close>

definition heading_level :: "string \<Rightarrow> nat option" where
  "heading_level t =
     map_of [(''h1'', 1), (''h2'', 2), (''h3'', 3), (''h4'', 4), (''h5'', 5), (''h6'', 6)] t"

fun headings :: "dom \<Rightarrow> nat list" where
  "headings (DText s) = []"
| "headings (DElem t as ds) =
     (case heading_level t of Some l \<Rightarrow> [l] | None \<Rightarrow> []) @ concat (map headings ds)"

text \<open>An outline skips no level: each heading is at most one level below the previous one.\<close>

fun outline_ok :: "nat \<Rightarrow> nat list \<Rightarrow> bool" where
  "outline_ok prev [] = True"
| "outline_ok prev (l # ls) = (0 < l \<and> l \<le> Suc prev \<and> outline_ok l ls)"

text \<open>
  HTML's content model, for the tags the site uses: inside a paragraph, a heading or a
  \<open>span\<close> only phrasing content may appear, and an anchor may not contain another anchor
  (an anchor is transparent: it keeps the context it is in).
\<close>

definition phrasing :: "string list" where
  "phrasing = [''a'', ''span'', ''svg'', ''em'', ''strong'', ''code'', ''b'', ''i'', ''br'', ''img'']"

definition phrasing_parents :: "string list" where
  "phrasing_parents = [''p'', ''h1'', ''h2'', ''h3'', ''h4'', ''h5'', ''h6'', ''span'']"

fun content_ok :: "bool \<Rightarrow> bool \<Rightarrow> dom \<Rightarrow> bool" where
  "content_ok ph an (DText s) = True"
| "content_ok ph an (DElem t as ds) =
     ((ph \<longrightarrow> t \<in> set phrasing) \<and> \<not> (an \<and> t = ''a'') \<and>
      list_all (content_ok (ph \<or> t \<in> set phrasing_parents) (an \<or> t = ''a'')) ds)"

text \<open>The attribute lists of the anchors (\<open>a\<close> elements), in document order.\<close>

fun anchors :: "dom \<Rightarrow> attrs list" where
  "anchors (DText s) = []"
| "anchors (DElem t as ds) = (if t = ''a'' then [as] else []) @ concat (map anchors ds)"

text \<open>
  A host-only tree as an element tree (the inverse direction of rendering), and its depth,
  which is the fuel the renderer needs for it.
\<close>

fun to_node :: "dom \<Rightarrow> 'c node" where
  "to_node (DText s) = Text s"
| "to_node (DElem t as ds) = El (Host t) None (map (\<lambda>(k, v). (k, PStr v)) as) (map to_node ds)"

fun depth :: "dom \<Rightarrow> nat" where
  "depth (DText s) = 1"
| "depth (DElem t as ds) = Suc (fold max (map depth ds) 0)"

text \<open>The React key of an element.\<close>

fun node_key :: "'c node \<Rightarrow> nat option" where
  "node_key (El ty k ps cs) = k"
| "node_key (Text s) = None"

subsection \<open>Fuel, and host trees\<close>

text \<open>
  The equations of \<open>render\<close> at a numeral fuel, so that a concrete fuel is spent one unit
  at a time without turning the other numerals of a page into successor terms.
\<close>

lemma render_numeral [simp]:
  "render b (numeral k) (Text s) = Inr [DText s]"
  "render b (numeral k) (El (Host t) key ps cs) =
     (case sequence (map (render b (pred_numeral k)) cs) of
        Inl e \<Rightarrow> Inl e
      | Inr ds \<Rightarrow> Inr [DElem t (host_attrs ps) (concat ds)])"
  "render b (numeral k) (El Fragment key ps cs) =
     (case sequence (map (render b (pred_numeral k)) cs) of
        Inl e \<Rightarrow> Inl e
      | Inr ds \<Rightarrow> Inr (concat ds))"
  "render b (numeral k) (El (Fn c) key ps cs) = render b (pred_numeral k) (b c ps cs)"
  "render b (numeral k) (El Undef key ps cs) = Inl InvalidElementType"
  by (simp_all only: numeral_eq_Suc render.simps)

lemma calls_numeral [simp]:
  "calls b (numeral k) (Text s) = []"
  "calls b (numeral k) (El (Host t) key ps cs) = concat (map (calls b (pred_numeral k)) cs)"
  "calls b (numeral k) (El Fragment key ps cs) = concat (map (calls b (pred_numeral k)) cs)"
  "calls b (numeral k) (El (Fn c) key ps cs) = c # calls b (pred_numeral k) (b c ps cs)"
  "calls b (numeral k) (El Undef key ps cs) = []"
  by (simp_all only: numeral_eq_Suc calls.simps)

text \<open>
  The children of an element are rendered with the same fuel, so a fuel change that leaves
  every child's result alone (where it did not run out) leaves the sequenced result alone.
\<close>

lemma render_children_stable:
  assumes "sequence (map (render b n) cs) \<noteq> Inl OutOfFuel"
    and "\<And>x. x \<in> set cs \<Longrightarrow> render b n x \<noteq> Inl OutOfFuel \<Longrightarrow> render b m x = render b n x"
  shows "sequence (map (render b m) cs) = sequence (map (render b n) cs)"
  using assms(2,1) by (rule sequence_map_stable)

text \<open>
  More fuel never changes a result that did not run out of fuel: a value, or the
  \<open>InvalidElementType\<close> error, is what React itself produces.
\<close>

lemma render_fuel_mono:
  "render b n x \<noteq> Inl OutOfFuel \<Longrightarrow> n \<le> m \<Longrightarrow> render b m x = render b n x"
proof (induction n arbitrary: x m)
  case 0
  then show ?case by simp
next
  case (Suc n)
  from Suc.prems(2) obtain m' where m: "m = Suc m'" and nm: "n \<le> m'"
    by (cases m) auto
  have stable: "sequence (map (render b m') cs) = sequence (map (render b n) cs)"
    if "sequence (map (render b n) cs) \<noteq> Inl OutOfFuel" for cs
    using that by (rule render_children_stable) (rule Suc.IH [OF _ nm])
  show ?case
  proof (cases x)
    case (Text s)
    with m show ?thesis by simp
  next
    case (El ty k ps cs)
    show ?thesis
    proof (cases ty)
      case (Host t)
      with El Suc.prems(1) have "sequence (map (render b n) cs) \<noteq> Inl OutOfFuel"
        by (auto split: sum.splits)
      with El Host m stable show ?thesis by simp
    next
      case Fragment
      with El Suc.prems(1) have "sequence (map (render b n) cs) \<noteq> Inl OutOfFuel"
        by (auto split: sum.splits)
      with El Fragment m stable show ?thesis by simp
    next
      case (Fn c)
      with El Suc.prems(1) Suc.IH [OF _ nm] m show ?thesis by simp
    next
      case Undef
      with El m show ?thesis by simp
    qed
  qed
qed

lemma host_attrs_PStr [simp]: "host_attrs (map (\<lambda>(k, v). (k, PStr v)) as) = as"
  by (induction as) (auto simp: host_attrs_def)

text \<open>Rendering a host-only tree gives back the tree, for any component environment.\<close>

lemma render_to_node: "depth d \<le> n \<Longrightarrow> render b n (to_node d) = Inr [d]"
proof (induction d arbitrary: n)
  case (DText s)
  then show ?case by (cases n) auto
next
  case (DElem t as ds)
  from DElem.prems obtain n' where n: "n = Suc n'" and le: "fold max (map depth ds) 0 \<le> n'"
    by (cases n) auto
  have "render b n' (to_node d) = Inr [d]" if "d \<in> set ds" for d
  proof -
    from that have "depth d \<le> fold max (map depth ds) 0" by (intro fold_max_ge) simp
    with le that DElem.IH show ?thesis by simp
  qed
  then have "sequence (map (render b n' \<circ> to_node) ds) = Inr (map (\<lambda>d. [d]) ds)"
    by (simp add: sequence_Inr_iff)
  with n show ?case by simp
qed
text \<open>The children and the element-valued props of an element are smaller than it.\<close>

lemma size_child_lt: "y \<in> set cs \<Longrightarrow> size y < size (El t k ps cs)"
  using size_list_estimation' [of y cs "size y" size] by simp

lemma size_prop_lt: "(k, PNode y) \<in> set ps \<Longrightarrow> size y < size (El t key ps cs)"
  using size_list_estimation' [of "(k, PNode y)" ps "size y" "size_prod (\<lambda>x. 0) size"] by simp

declare heading_level_def [dom_simps] phrasing_def [dom_simps] phrasing_parents_def [dom_simps]

end
