(* ===== verification/Theme.thy ===== *)
theory Theme
  imports VDom
begin

text \<open>
  The site's components and the collaborators the sources import but do not define:
  \<open>useDocusaurusContext\<close> (the \<open>siteConfig\<close>), CSS modules (\<open>styles.x\<close>), \<open>clsx\<close>,
  and the theme components \<open>@theme/Heading\<close>, \<open>@docusaurus/Link\<close>, \<open>@theme/Layout\<close> and
  the SVG components that \<open>require('...svg').default\<close> yields.  These are modelled from
  their documented behaviour, restricted to the props the sources pass.  The theorems of the
  page components assume only \<open>theme_ok\<close>: that the component environment runs these
  bodies for the theme components.
\<close>

subsection \<open>Components and context\<close>

text \<open>
  Every component an element of the site can have as its type: the theme's, one per SVG
  asset, and the four function components of \<open>src/\<close>.
\<close>

datatype comp =
    CHeading | CLink | CLayout | CSvg string
  | CFeature | CHomepageFeatures | CHomepageHeader | CHome

text \<open>The fields of \<open>siteConfig\<close> the rendering reads (from \<open>docusaurus.config.js\<close>).\<close>

record siteConfig =
  sc_title :: string
  sc_titleDelimiter :: string
  sc_baseUrl :: string

text \<open>
  The rendering context: the site configuration, and the class names the CSS modules
  generate, by module file and local name (the generated names are opaque: every theorem
  holds for any naming).
\<close>

record ctx =
  siteConfig :: siteConfig
  css :: "string \<Rightarrow> string \<Rightarrow> string"

abbreviation tag :: "string \<Rightarrow> comp props \<Rightarrow> comp node list \<Rightarrow> comp node" where
  "tag t ps cs \<equiv> El (Host t) None ps cs"

abbreviation cls :: "string \<Rightarrow> string \<times> comp pval" where
  "cls s \<equiv> (''className'', PStr s)"

subsection \<open>clsx\<close>

text \<open>\<open>clsx(a, b, ...)\<close> on string arguments: the non-empty ones, joined by spaces.\<close>

fun join_space :: "string list \<Rightarrow> string" where
  "join_space [] = []"
| "join_space [s] = s"
| "join_space (s # ss) = s @ '' '' @ join_space ss"

definition clsx :: "string list \<Rightarrow> string" where
  "clsx xs = join_space (filter (\<lambda>s. s \<noteq> []) xs)"

subsection \<open>Theme components\<close>

text \<open>
  \<open><Heading as="h3" ...>\<close>: an element of the tag given by \<open>as\<close>, with the other props.
  Without \<open>as\<close> the type is \<open>undefined\<close> and mounting throws.
\<close>

definition Heading :: "comp props \<Rightarrow> comp node list \<Rightarrow> comp node" where
  "Heading ps cs = El (etype_of (map_of ps ''as'')) None (filter (\<lambda>(k, v). k \<noteq> ''as'') ps) cs"

text \<open>
  \<open>useBaseUrl\<close> (\<open>addBaseUrl\<close> of \<open>@docusaurus/core\<close>): an empty URL, a fragment \<open>#...\<close>
  and a URL with a protocol (\<open>/^[a-zA-Z][a-zA-Z\d+\-.]*:/\<close>) are left alone; the base
  without its trailing slash becomes the base; a URL that already starts with the base is
  left alone; any other URL gets the base in front, without its own leading slash.
\<close>

definition has_protocol :: "string \<Rightarrow> bool" where
  "has_protocol url \<longleftrightarrow>
     (let alpha = (\<lambda>c. let n = of_char c :: nat in (0x41 \<le> n \<and> n \<le> 0x5A) \<or> (0x61 \<le> n \<and> n \<le> 0x7A));
          scheme = (\<lambda>c. alpha c \<or> (let n = of_char c :: nat in
                                     (0x30 \<le> n \<and> n \<le> 0x39) \<or> n \<in> {0x2B, 0x2D, 0x2E}))
      in case url of
           c # rest \<Rightarrow> alpha c \<and> (case dropWhile scheme rest of CHR '':'' # _ \<Rightarrow> True | _ \<Rightarrow> False)
         | [] \<Rightarrow> False)"

definition with_base :: "string \<Rightarrow> string \<Rightarrow> string" where
  "with_base base url =
     (if url = [] \<or> hd url = CHR ''#'' \<or> has_protocol url then url
      else if url = (if base \<noteq> [] \<and> last base = CHR ''/'' then butlast base else base) then base
      else if take (length base) url = base then url
      else base @ (if hd url = CHR ''/'' then tl url else url))"

text \<open>\<open><Link to=...>\<close>: an anchor to \<open>to\<close> resolved by \<open>useBaseUrl\<close>, with the remaining props.\<close>

definition Link :: "siteConfig \<Rightarrow> comp props \<Rightarrow> comp node list \<Rightarrow> comp node" where
  "Link sc ps cs =
     (case map_of ps ''to'' of
        Some (PStr url) \<Rightarrow>
          tag ''a'' ((''href'', PStr (with_base (sc_baseUrl sc) url)) #
                     filter (\<lambda>(k, v). k \<noteq> ''to'') ps) cs
      | _ \<Rightarrow> tag ''a'' (filter (\<lambda>(k, v). k \<noteq> ''to'') ps) cs)"

text \<open>
  \<open>String.prototype.trim\<close>: the leading and trailing code points that ECMAScript counts as
  white space or line terminators are removed (tab, line feed, vertical tab, form feed,
  carriage return, space, no-break space, the other space separators of Unicode category
  Zs, the line and paragraph separators, and the byte order mark).  The string is read as
  UTF-8; a byte string that does not decode, which no JavaScript string encodes to, is left
  alone.
\<close>

definition js_space :: "nat \<Rightarrow> bool" where
  "js_space c \<longleftrightarrow>
     c \<in> set [0x9, 0xA, 0xB, 0xC, 0xD, 0x20, 0xA0, 0x1680, 0x2028, 0x2029, 0x202F, 0x205F,
              0x3000, 0xFEFF] \<or> (0x2000 \<le> c \<and> c \<le> 0x200A)"

definition trim :: "string \<Rightarrow> string" where
  "trim s =
     (case utf8_decode (map of_char s) of
        Some cs \<Rightarrow> utf8 (rev (dropWhile js_space (rev (dropWhile js_space cs))))
      | None \<Rightarrow> s)"

text \<open>
  The document title \<open>PageMetadata\<close> sets: the page title, the delimiter and the site
  title; an empty page title gives the site title alone.
\<close>

definition format_title :: "siteConfig \<Rightarrow> string \<Rightarrow> string" where
  "format_title sc t =
     (if trim t = [] then sc_title sc
      else trim t @ '' '' @ sc_titleDelimiter sc @ '' '' @ sc_title sc)"

text \<open>
  \<open><Layout title description>children</Layout>\<close>: the page metadata (document title and
  description meta tag) and the children in the main wrapper.  The navbar and footer, built
  from \<open>docusaurus.config.js\<close>, are left out.
\<close>

definition Layout :: "siteConfig \<Rightarrow> comp props \<Rightarrow> comp node list \<Rightarrow> comp node" where
  "Layout sc ps cs =
     frag [tag ''title'' []
             [Text (format_title sc (case map_of ps ''title'' of Some (PStr t) \<Rightarrow> t | _ \<Rightarrow> []))],
           tag ''meta'' [(''name'', PStr ''description''),
                         (''content'', case map_of ps ''description'' of
                                          Some (PStr d) \<Rightarrow> PStr d | _ \<Rightarrow> PStr [])] [],
           tag ''div'' [cls ''main-wrapper''] cs]"

text \<open>The component of an SVG asset: an \<open>svg\<close> element with the props it is given.\<close>

definition SvgComponent :: "string \<Rightarrow> comp props \<Rightarrow> comp node list \<Rightarrow> comp node" where
  "SvgComponent path ps cs = tag ''svg'' ps []"

text \<open>The interface the page components rely on.\<close>

definition theme_ok :: "ctx \<Rightarrow> comp body \<Rightarrow> bool" where
  "theme_ok cx b \<longleftrightarrow>
     b CHeading = Heading \<and> b CLink = Link (siteConfig cx) \<and>
     b CLayout = Layout (siteConfig cx) \<and> (\<forall>p. b (CSvg p) = SvgComponent p)"

subsection \<open>Rendering the theme components\<close>

lemma clsx_single: "s \<noteq> [] \<Longrightarrow> clsx [s] = s"
  by (simp add: clsx_def)

lemma theme_okD:
  "theme_ok cx b \<Longrightarrow> b CHeading = Heading"
  "theme_ok cx b \<Longrightarrow> b CLink = Link (siteConfig cx)"
  "theme_ok cx b \<Longrightarrow> b CLayout = Layout (siteConfig cx)"
  "theme_ok cx b \<Longrightarrow> b (CSvg p) = SvgComponent p"
  by (simp_all add: theme_ok_def)

text \<open>Trimming a string of ASCII characters, and a string given by its code points.\<close>

lemma trim_utf8:
  "list_all valid_cp cs \<Longrightarrow> trim (utf8 cs) = utf8 (rev (dropWhile js_space (rev (dropWhile js_space cs))))"
  by (simp add: trim_def utf8_bytes utf8_decode_concat)

lemma trim_ascii:
  assumes "list_all (\<lambda>c. of_char c < (0x80::nat)) s"
  shows "trim s = rev (dropWhile (\<lambda>c. js_space (of_char c)) (rev (dropWhile (\<lambda>c. js_space (of_char c)) s)))"
proof -
  let ?P = "\<lambda>c. js_space (of_char c)"
  have "trim s = utf8 (rev (dropWhile js_space (rev (dropWhile js_space (map of_char s)))))"
    using trim_utf8 [OF ascii_valid [OF assms]] utf8_ascii [OF assms] by simp
  also have "rev (dropWhile js_space (rev (dropWhile js_space (map of_char s)))) =
             map of_char (rev (dropWhile ?P (rev (dropWhile ?P s))))"
    by (simp add: dropWhile_map rev_map comp_def)
  also have "utf8 \<dots> = rev (dropWhile ?P (rev (dropWhile ?P s)))"
  proof (rule utf8_ascii)
    have "set (rev (dropWhile ?P (rev (dropWhile ?P s)))) \<subseteq> set s"
      by (auto dest!: set_dropWhileD)
    with assms show "list_all (\<lambda>c. of_char c < (0x80::nat)) (rev (dropWhile ?P (rev (dropWhile ?P s))))"
      by (auto simp: list_all_iff)
  qed
  finally show ?thesis .
qed

text \<open>
  Resolving a site-absolute link against a base URL that is empty or starts with a slash
  puts the base in front of it, and resolving the result again changes nothing.
\<close>

lemma strip_slash_self:
  "s @ r = (if s \<noteq> [] \<and> last s = CHR ''/'' then butlast s else s) \<Longrightarrow> r = [] \<and> s @ r = s"
proof -
  assume e: "s @ r = (if s \<noteq> [] \<and> last s = CHR ''/'' then butlast s else s)"
  have "length s + length r \<le> length s"
    using arg_cong [OF e, of length] by (simp split: if_splits)
  then have "r = []" by simp
  then show ?thesis by simp
qed

lemma slash_not_protocol: "url \<noteq> [] \<Longrightarrow> hd url = CHR ''/'' \<Longrightarrow> \<not> has_protocol url"
  by (cases url) (simp_all add: has_protocol_def)

lemma with_base_idem_prefix:
  assumes "url \<noteq> []" and "hd url = CHR ''/''" and "base = [] \<or> hd base = CHR ''/''"
  shows "take (length base) (with_base base url) = base \<and>
         with_base base (with_base base url) = with_base base url"
proof -
  have np: "\<not> has_protocol u" if "u \<noteq> []" "hd u = CHR ''/''" for u
    using that by (rule slash_not_protocol)
  have base_fix: "with_base base base = base"
    using assms(3) np [of base] by (auto simp: with_base_def)
  let ?sb = "if base \<noteq> [] \<and> last base = CHR ''/'' then butlast base else base"
  consider (eq) "url = ?sb" | (pre) "url \<noteq> ?sb" "take (length base) url = base"
    | (add) "url \<noteq> ?sb" "take (length base) url \<noteq> base" by blast
  then show ?thesis
  proof cases
    case eq
    then show ?thesis using assms np [of url] base_fix by (simp add: with_base_def)
  next
    case pre
    then show ?thesis using assms np [of url] by (simp add: with_base_def)
  next
    case add
    obtain rest where url: "url = CHR ''/'' # rest" using assms(1,2) by (cases url) auto
    have bne: "base \<noteq> []" using add by auto
    with assms(3) have hb: "hd base = CHR ''/''" by simp
    have w: "with_base base url = base @ rest" using add url np [of url] by (simp add: with_base_def)
    have "\<not> has_protocol (base @ rest)" using bne hb by (intro np) simp_all
    have "with_base base (base @ rest) = base @ rest"
    proof (cases "base @ rest = ?sb")
      case True
      then show ?thesis using strip_slash_self [OF True] base_fix by simp
    next
      case False
      then show ?thesis using bne hb \<open>\<not> has_protocol (base @ rest)\<close> by (simp add: with_base_def)
    qed
    with w show ?thesis by simp
  qed
qed

declare Heading_def [page_defs] Link_def [page_defs] Layout_def [page_defs]
  SvgComponent_def [page_defs] clsx_def [page_defs] frag_def [page_defs] host_attrs_def [page_defs]

end
