(* ===== verification/HomepageFeatures.thy ===== *)
theory HomepageFeatures
  imports Theme
begin

text \<open>
  The feature-card renderer of \<open>src/components/HomepageFeatures/index.js\<close>: the constant
  \<open>FeatureList\<close>, the card component \<open>Feature\<close> and the section \<open>HomepageFeatures\<close>
  that maps the list to keyed cards.  The lemmas render a card and the section for any list
  of features, and read the rendered DOM back as the list of (title, description) cards.
\<close>

subsection \<open>Data\<close>

text \<open>
  An entry of \<open>FeatureList\<close>: its title, the SVG module its \<open>Svg\<close> component comes from
  (\<open>require(path).default\<close>), and its description element.
\<close>

record feature =
  title :: string
  Svg :: string
  description :: "comp node"

definition FeatureList :: "feature list" where
  "FeatureList =
    [\<lparr>title = ''Proxmox Virtualization'',
      Svg = ''@site/static/img/undraw_docusaurus_mountain.svg'',
      description = frag [Text
        ''Learn how to effectively manage virtual machines and containers using Proxmox.'']\<rparr>,
     \<lparr>title = ''MikroTik Configuration'',
      Svg = ''@site/static/img/undraw_docusaurus_mountain.svg'',
      description = frag [Text
        ''Master MikroTik router configurations for optimal network performance.'']\<rparr>,
     \<lparr>title = ''Networking Fundamentals'',
      Svg = ''@site/static/img/undraw_docusaurus_mountain.svg'',
      description = frag [Text
        ''Understand the core concepts of networking, including protocols and topologies.'']\<rparr>]"

text \<open>\<open>styles.x\<close> of \<open>./styles.module.css\<close>.\<close>

definition feature_styles :: "ctx \<Rightarrow> string \<Rightarrow> string" where
  "feature_styles cx k = css cx ''src/components/HomepageFeatures/styles.module.css'' k"

subsection \<open>Components\<close>

text \<open>
  \<open>function Feature({Svg, title, description})\<close>: the props are destructured, \<open>Svg\<close> is
  used as an element type, \<open>title\<close> and \<open>description\<close> as children.
\<close>

definition Feature :: "ctx \<Rightarrow> comp props \<Rightarrow> comp node list \<Rightarrow> comp node" where
  "Feature cx ps cs =
     tag ''div'' [cls (clsx [''col col--4''])]
       [tag ''div'' [cls ''text--center'']
          [El (etype_of (map_of ps ''Svg'')) None
             [cls (feature_styles cx ''featureSvg''), (''role'', PStr ''img'')] []],
        tag ''div'' [cls ''text--center padding-horiz--md'']
          [El (Fn CHeading) None [(''as'', PStr ''h3'')] [child (map_of ps ''title'')],
           tag ''p'' [] [child (map_of ps ''description'')]]]"

text \<open>\<open>{...props}\<close> on an entry of the list: its three properties, in source order.\<close>

definition feature_props :: "feature \<Rightarrow> comp props" where
  "feature_props f =
     [(''title'', PStr (title f)), (''Svg'', PFn (CSvg (Svg f))),
      (''description'', PNode (description f))]"

text \<open>\<open>FeatureList.map((props, idx) => <Feature key={idx} {...props} />)\<close>, for any list.\<close>

definition features_row :: "feature list \<Rightarrow> comp node list" where
  "features_row fl = map (\<lambda>(idx, p). El (Fn CFeature) (Some idx) (feature_props p) []) (enumerate 0 fl)"

definition features_section :: "ctx \<Rightarrow> feature list \<Rightarrow> comp node" where
  "features_section cx fl =
     tag ''section'' [cls (feature_styles cx ''features'')]
       [tag ''div'' [cls ''container'']
          [tag ''div'' [cls ''row''] (features_row fl)]]"

definition HomepageFeatures :: "ctx \<Rightarrow> comp props \<Rightarrow> comp node list \<Rightarrow> comp node" where
  "HomepageFeatures cx ps cs = features_section cx FeatureList"

text \<open>The component environment runs the theme and \<open>Feature\<close> as defined.\<close>

definition features_ok :: "ctx \<Rightarrow> comp body \<Rightarrow> bool" where
  "features_ok cx b \<longleftrightarrow> theme_ok cx b \<and> b CFeature = Feature cx"

subsection \<open>The rendered card\<close>

definition card_dom :: "ctx \<Rightarrow> feature \<Rightarrow> dom list \<Rightarrow> dom" where
  "card_dom cx f ds =
     DElem ''div'' [(''className'', ''col col--4'')]
       [DElem ''div'' [(''className'', ''text--center'')]
          [DElem ''svg'' [(''className'', feature_styles cx ''featureSvg''), (''role'', ''img'')] []],
        DElem ''div'' [(''className'', ''text--center padding-horiz--md'')]
          [DElem ''h3'' [] [DText (title f)], DElem ''p'' [] ds]]"

definition section_dom :: "ctx \<Rightarrow> dom list \<Rightarrow> dom" where
  "section_dom cx cards =
     DElem ''section'' [(''className'', feature_styles cx ''features'')]
       [DElem ''div'' [(''className'', ''container'')] [DElem ''div'' [(''className'', ''row'')] cards]]"

text \<open>What a reader of a card sees: the text of its heading and of its paragraph.\<close>

fun card_view :: "dom \<Rightarrow> (string \<times> string) option" where
  "card_view (DElem t as [img, DElem t' as' [DElem h has hs, DElem p pas ps]]) =
     (if h = ''h3'' \<and> p = ''p''
      then Some (concat (map text_content hs), concat (map text_content ps)) else None)"
| "card_view _ = None"

fun cards_of :: "dom \<Rightarrow> (string \<times> string) option list" where
  "cards_of (DElem s as [DElem c cas [DElem r ras cols]]) = map card_view cols"
| "cards_of _ = []"

text \<open>The rendered descriptions of \<open>FeatureList\<close>: one text node each.\<close>

definition FeatureList_descs :: "dom list list" where
  "FeatureList_descs =
     [[DText ''Learn how to effectively manage virtual machines and containers using Proxmox.''],
      [DText ''Master MikroTik router configurations for optimal network performance.''],
      [DText ''Understand the core concepts of networking, including protocols and topologies.'']]"

lemma features_okD:
  "features_ok cx b \<Longrightarrow> theme_ok cx b"
  "features_ok cx b \<Longrightarrow> b CFeature = Feature cx"
  by (simp_all add: features_ok_def)

lemma features_ok_eqs:
  assumes "features_ok cx b"
  shows "b CFeature = Feature cx" "b CHeading = Heading" "b CLink = Link (siteConfig cx)"
    "b CLayout = Layout (siteConfig cx)" "b (CSvg p) = SvgComponent p"
  using assms by (simp_all add: features_ok_def theme_ok_def)

lemma render_Feature:
  assumes ok: "features_ok cx b" and d: "render b n (description f) = Inr ds"
  shows "render b (n + 5) (El (Fn CFeature) k (feature_props f) []) = Inr [card_dom cx f ds]"
proof -
  from d obtain n' where n: "n = Suc n'" by (cases n) auto
  from d have d': "render b (Suc n) (description f) = Inr ds"
    by (subst render_fuel_mono) auto
  note th = features_okD [OF ok] theme_okD [OF features_okD(1) [OF ok]]
  show ?thesis
    using d' th n
    by (simp add: eval_nat_numeral Feature_def feature_props_def card_dom_def page_defs)
qed

lemma render_features_enum:
  assumes ok: "features_ok cx b"
    and all: "list_all2 (\<lambda>f ds. render b n (description f) = Inr ds) fl dss"
  shows "map (\<lambda>(idx, p). render b (n + 5) (El (Fn CFeature) (Some idx) (feature_props p) []))
           (enumerate i fl) =
         map (\<lambda>(f, ds). Inr [card_dom cx f ds]) (zip fl dss)"
  using all
proof (induction arbitrary: i rule: list_all2_induct)
  case Nil
  then show ?case by simp
next
  case (Cons f fl ds dss)
  with render_Feature [OF ok] show ?case by simp
qed

lemma render_features_section:
  assumes ok: "features_ok cx b"
    and all: "list_all2 (\<lambda>f ds. render b n (description f) = Inr ds) fl dss"
  shows "render b (n + 8) (features_section cx fl) =
         Inr [section_dom cx (map2 (card_dom cx) fl dss)]"
proof -
  have "map (render b (n + 5)) (features_row fl) =
        map (\<lambda>(idx, p). render b (n + 5) (El (Fn CFeature) (Some idx) (feature_props p) []))
          (enumerate 0 fl)"
    by (simp add: features_row_def split_def)
  also have "\<dots> = map (\<lambda>(f, ds). Inr [card_dom cx f ds]) (zip fl dss)"
    by (rule render_features_enum [OF ok all])
  also have "\<dots> = map Inr (map (\<lambda>(f, ds). [card_dom cx f ds]) (zip fl dss))"
    by (simp add: split_def)
  finally have row: "map (render b (n + 5)) (features_row fl) =
      map Inr (map (\<lambda>(f, ds). [card_dom cx f ds]) (zip fl dss))" .
  have "concat (map (\<lambda>(f, ds). [card_dom cx f ds]) (zip fl dss)) = map2 (card_dom cx) fl dss"
    by (simp add: split_def concat_map_singleton)
  with row show ?thesis
    by (simp add: eval_nat_numeral features_section_def section_dom_def host_attrs_def)
qed

lemma card_view_card_dom [simp]:
  "card_view (card_dom cx f ds) = Some (title f, concat (map text_content ds))"
  by (simp add: card_dom_def)

text \<open>C1: For any list of features whose descriptions render, the rendered HomepageFeatures section read back as cards gives exactly one (title, description text) card per feature, in input order, duplicates kept.\<close>

theorem features_section_cards:
  assumes "features_ok cx b"
    and "list_all2 (\<lambda>f ds. render b n (description f) = Inr ds) fl dss"
  shows "(case render b (n + 8) (features_section cx fl) of Inr [d] \<Rightarrow> cards_of d | _ \<Rightarrow> []) =
         map (\<lambda>(f, ds). Some (title f, concat (map text_content ds))) (zip fl dss)"
  using render_features_section [OF assms] by (auto simp: section_dom_def split: prod.splits)

text \<open>C3: The cards produced by FeatureList.map carry the keys 0..n-1 in order, so sibling keys are distinct for any list.\<close>

theorem features_row_keys:
  "map node_key (features_row fl) = map Some [0..<length fl] \<and> distinct (map node_key (features_row fl))"
proof -
  have "map node_key (map (\<lambda>(idx, p). El (Fn CFeature) (Some idx) (feature_props p) []) (enumerate i fl))
        = map Some [i..<i + length fl]" for i
    by (induction fl arbitrary: i) (auto simp: upt_rec)
  from this [of 0] show ?thesis by (simp add: features_row_def distinct_map)
qed

text \<open>C4: A Feature element whose props lack Svg makes the mount fail with an invalid element type, since Feature uses the destructured Svg as an element type without a guard.\<close>

theorem Feature_missing_Svg:
  "features_ok cx b \<Longrightarrow> map_of ps ''Svg'' = None \<Longrightarrow>
   render b (n + 4) (El (Fn CFeature) k ps cs) = Inl InvalidElementType"
  by (simp add: features_okD eval_nat_numeral Feature_def page_defs)

lemma FeatureList_descs_render:
  "list_all2 (\<lambda>f ds. render b 2 (description f) = Inr ds) FeatureList FeatureList_descs"
  by (simp add: FeatureList_def FeatureList_descs_def frag_def)

lemma render_HomepageFeatures:
  assumes "features_ok cx b" and "b CHomepageFeatures = HomepageFeatures cx"
  shows "render b 11 (El (Fn CHomepageFeatures) None [] []) =
         Inr [section_dom cx (map2 (card_dom cx) FeatureList FeatureList_descs)]"
proof -
  have "render b 11 (El (Fn CHomepageFeatures) None [] []) = render b (2 + 8) (features_section cx FeatureList)"
    using assms(2) by (simp add: HomepageFeatures_def)
  with render_features_section [OF assms(1) FeatureList_descs_render] show ?thesis by simp
qed

text \<open>C2: Rendering the HomepageFeatures component yields the three cards of FeatureList with their titles and description texts, in source order.\<close>

theorem HomepageFeatures_cards:
  assumes "features_ok cx b" and "b CHomepageFeatures = HomepageFeatures cx"
  shows "(case render b 11 (El (Fn CHomepageFeatures) None [] []) of Inr [d] \<Rightarrow> cards_of d | _ \<Rightarrow> []) =
         [Some (''Proxmox Virtualization'',
                ''Learn how to effectively manage virtual machines and containers using Proxmox.''),
          Some (''MikroTik Configuration'',
                ''Master MikroTik router configurations for optimal network performance.''),
          Some (''Networking Fundamentals'',
                ''Understand the core concepts of networking, including protocols and topologies.'')]"
  using render_HomepageFeatures [OF assms]
  by (simp add: FeatureList_def FeatureList_descs_def section_dom_def)

text \<open>C14: The HomepageFeatures section contains only h3 headings (one per feature) and no h2, so placed under the page's h1 its outline would skip a level.\<close>

theorem HomepageFeatures_outline:
  assumes "features_ok cx b" and "b CHomepageFeatures = HomepageFeatures cx"
  shows "(case render b 11 (El (Fn CHomepageFeatures) None [] []) of
            Inr ds \<Rightarrow> concat (map headings ds) | Inl e \<Rightarrow> []) = [3, 3, 3] \<and>
         \<not> outline_ok 1 [3, 3, 3]"
  using render_HomepageFeatures [OF assms]
  by (simp add: FeatureList_def FeatureList_descs_def section_dom_def card_dom_def dom_simps)

text \<open>C15: Every SVG image HomepageFeatures renders carries role="img".\<close>

theorem HomepageFeatures_svg_role:
  assumes "features_ok cx b" and "b CHomepageFeatures = HomepageFeatures cx"
  shows "(case render b 11 (El (Fn CHomepageFeatures) None [] []) of
            Inr ds \<Rightarrow> map (\<lambda>d. attr d ''role'') (concat (map (by_tag ''svg'') ds)) | Inl e \<Rightarrow> []) =
         replicate 3 (Some ''img'')"
  using render_HomepageFeatures [OF assms]
  by (simp add: FeatureList_def FeatureList_descs_def section_dom_def card_dom_def numeral_eq_Suc)

text \<open>C16: Unlike a missing Svg, a Feature whose props lack title and description is not an error: it renders the card with an empty heading and an empty paragraph.\<close>

theorem Feature_missing_text:
  assumes "features_ok cx b" and "map_of ps ''Svg'' = Some (PFn (CSvg p))"
    and "map_of ps ''title'' = None" and "map_of ps ''description'' = None"
  shows "render b 6 (El (Fn CFeature) k ps cs) =
    Inr [DElem ''div'' [(''className'', ''col col--4'')]
          [DElem ''div'' [(''className'', ''text--center'')]
             [DElem ''svg'' [(''className'', feature_styles cx ''featureSvg''), (''role'', ''img'')] []],
           DElem ''div'' [(''className'', ''text--center padding-horiz--md'')]
             [DElem ''h3'' [] [], DElem ''p'' [] []]]]"
  using assms features_ok_eqs [OF assms(1)] by (simp add: Feature_def page_defs)

end
