(* ===== verification/HomePage.thy ===== *)
theory HomePage
  imports HomepageFeatures
begin

text \<open>
  The homepage of \<open>src/pages/index.js\<close>: the hero banner \<open>HomepageHeader\<close> and the page
  \<open>Home\<close> (technology badges, the feature grid, the quick-start links and the contact
  links, inside the theme's \<open>Layout\<close>).  Both are element trees built from constants and
  the site configuration; JSX comments (the commented-out \<open><HomepageFeatures />\<close>)
  produce no child.  Text is JSX text with its line breaks trimmed, emoji written by code
  point.
\<close>

text \<open>\<open>styles.x\<close> of \<open>./index.module.css\<close>.\<close>

definition index_styles :: "ctx \<Rightarrow> string \<Rightarrow> string" where
  "index_styles cx k = css cx ''src/pages/index.module.css'' k"

definition HomepageHeader :: "ctx \<Rightarrow> comp props \<Rightarrow> comp node list \<Rightarrow> comp node" where
  "HomepageHeader cx ps cs =
     tag ''header'' [cls (index_styles cx ''heroBanner'')]
       [tag ''div'' [cls (index_styles cx ''heroContent'')]
         [El (Fn CHeading) None [(''as'', PStr ''h1''), cls (index_styles cx ''heroTitle'')]
            [Text (utf8 [0x1F4DA] @ '' ''), child (Some (PStr (sc_title (siteConfig cx))))],
          tag ''p'' [cls (index_styles cx ''heroSubtitle'')]
            [Text ''Practical guides for Network Infrastructure, Virtualization & ISP Systems''],
          tag ''p'' [cls (index_styles cx ''heroDescription'')]
            [Text (''Expert-written documentation for deploying and managing MikroTik routers, '' @
                   ''Proxmox hypervisors, and advanced networking solutions.'')],
          tag ''div'' [cls (index_styles cx ''buttonGroup'')]
            [El (Fn CLink) None [cls (index_styles cx ''primaryButton''), (''to'', PStr ''/docs/intro'')]
               [Text (utf8 [0x1F4D6] @ '' Explore Documentation'')],
             El (Fn CLink) None
               [cls (index_styles cx ''secondaryButton''), (''to'', PStr ''/docs/category/mikrotik'')]
               [Text (utf8 [0x1F527] @ '' MikroTik Guides'')]],
          tag ''div'' [cls (index_styles cx ''statsContainer'')]
            [tag ''div'' [cls (index_styles cx ''statCard'')]
               [tag ''div'' [cls (index_styles cx ''statNumber'')] [Text ''27+''],
                tag ''div'' [cls (index_styles cx ''statLabel'')] [Text ''MikroTik Guides'']],
             tag ''div'' [cls (index_styles cx ''statCard'')]
               [tag ''div'' [cls (index_styles cx ''statNumber'')] [Text ''4+''],
                tag ''div'' [cls (index_styles cx ''statLabel'')] [Text ''Proxmox Guides'']],
             tag ''div'' [cls (index_styles cx ''statCard'')]
               [tag ''div'' [cls (index_styles cx ''statNumber'')] [Text ''100%''],
                tag ''div'' [cls (index_styles cx ''statLabel'')] [Text ''Tested & Production Ready'']]]]]"

text \<open>The technology badges of the ``Technologies Covered'' section (lines 67--107).\<close>

definition tech_section :: "ctx \<Rightarrow> comp node" where
  "tech_section cx =
     tag ''section'' [cls (index_styles cx ''technologiesSection'')]
       [tag ''div'' [cls ''container'']
         [El (Fn CHeading) None [(''as'', PStr ''h2''), cls (index_styles cx ''techTitle'')]
            [Text ''Technologies Covered''],
          tag ''div'' [cls (index_styles cx ''techGrid'')]
            [tag ''div'' [cls (index_styles cx ''techBadge'')]
               [tag ''span'' [cls (index_styles cx ''techIcon'')] [Text (utf8 [0x1F535])],
                tag ''span'' [] [Text ''MikroTik'']],
             tag ''div'' [cls (index_styles cx ''techBadge'')]
               [tag ''span'' [cls (index_styles cx ''techIcon'')] [Text (utf8 [0x1F7EA])],
                tag ''span'' [] [Text ''Proxmox'']],
             tag ''div'' [cls (index_styles cx ''techBadge'')]
               [tag ''span'' [cls (index_styles cx ''techIcon'')] [Text (utf8 [0x1F418])],
                tag ''span'' [] [Text ''Docker'']],
             tag ''div'' [cls (index_styles cx ''techBadge'')]
               [tag ''span'' [cls (index_styles cx ''techIcon'')] [Text (utf8 [0x1F7E2])],
                tag ''span'' [] [Text ''Linux'']],
             tag ''div'' [cls (index_styles cx ''techBadge'')]
               [tag ''span'' [cls (index_styles cx ''techIcon'')] [Text (utf8 [0x1F4E1])],
                tag ''span'' [] [Text ''RouterOS'']],
             tag ''div'' [cls (index_styles cx ''techBadge'')]
               [tag ''span'' [cls (index_styles cx ''techIcon'')] [Text (utf8 [0x1F510])],
                tag ''span'' [] [Text ''RADIUS'']],
             tag ''div'' [cls (index_styles cx ''techBadge'')]
               [tag ''span'' [cls (index_styles cx ''techIcon'')] [Text (utf8 [0x1F310])],
                tag ''span'' [] [Text ''VPN'']],
             tag ''div'' [cls (index_styles cx ''techBadge'')]
               [tag ''span'' [cls (index_styles cx ''techIcon'')] [Text (utf8 [0x1F4CA])],
                tag ''span'' [] [Text ''Monitoring'']]]]]"

text \<open>The ``What You'll Find Here'' grid (lines 109--147): host \<open>h3\<close> elements, no links.\<close>

definition find_section :: "ctx \<Rightarrow> comp node" where
  "find_section cx =
     tag ''section'' [cls (index_styles cx ''featuresSection'')]
       [tag ''div'' [cls ''container'']
         [El (Fn CHeading) None [(''as'', PStr ''h2''), cls (index_styles cx ''sectionTitle'')]
            [Text ''What You'll Find Here''],
          tag ''div'' [cls (index_styles cx ''featureGrid'')]
            [tag ''div'' [cls (index_styles cx ''featureItem'')]
               [tag ''span'' [cls (index_styles cx ''featureIcon'')] [Text (utf8 [0x1F310])],
                tag ''h3'' [] [Text ''Network Routing & Security''],
                tag ''p'' []
                  [Text ''Policy-based routing, firewall rules, VPN setup, and advanced traffic management'']],
             tag ''div'' [cls (index_styles cx ''featureItem'')]
               [tag ''span'' [cls (index_styles cx ''featureIcon'')] [Text (utf8 [0x1F512])],
                tag ''h3'' [] [Text ''ISP Infrastructure''],
                tag ''p'' []
                  [Text ''PPPoE, RADIUS authentication, access concentrators, and multi-WAN failover'']],
             tag ''div'' [cls (index_styles cx ''featureItem'')]
               [tag ''span'' [cls (index_styles cx ''featureIcon'')] [Text (utf8 [0x1F4BB])],
                tag ''h3'' [] [Text ''Virtualization''],
                tag ''p'' []
                  [Text ''Proxmox deployment, VM management, LXC containers, and cluster setup'']],
             tag ''div'' [cls (index_styles cx ''featureItem'')]
               [tag ''span'' [cls (index_styles cx ''featureIcon'')] [Text (utf8 [0x1F4CA])],
                tag ''h3'' [] [Text ''Monitoring & Alerts''],
                tag ''p'' []
                  [Text (''NetWatch alerts, Telegram notifications, Docker containers, '' @
                         ''and performance monitoring'')]],
             tag ''div'' [cls (index_styles cx ''featureItem'')]
               [tag ''span'' [cls (index_styles cx ''featureIcon'')] [Text (utf8 [0x26A1])],
                tag ''h3'' [] [Text ''Bandwidth Management''],
                tag ''p'' []
                  [Text ''QoS, bandwidth limiting, traffic shaping, and per-user prioritization'']],
             tag ''div'' [cls (index_styles cx ''featureItem'')]
               [tag ''span'' [cls (index_styles cx ''featureIcon'')] [Text (utf8 [0x1F3AF])],
                tag ''h3'' [] [Text ''Automation''],
                tag ''p'' []
                  [Text (''Scripting solutions, captive portals, auto-configuration, '' @
                         ''and system administration'')]]]]]"

text \<open>The ``Quick Start'' cards (lines 149--177): each card is a \<open>Link\<close>.\<close>

definition quick_start :: "ctx \<Rightarrow> comp node" where
  "quick_start cx =
     tag ''section'' [cls (index_styles cx ''quickStart'')]
       [tag ''div'' [cls ''container'']
         [El (Fn CHeading) None [(''as'', PStr ''h2''), cls (index_styles cx ''sectionTitle'')]
            [Text ''Quick Start''],
          tag ''div'' [cls (index_styles cx ''quickStartGrid'')]
            [El (Fn CLink) None [(''to'', PStr ''/docs/intro''), cls (index_styles cx ''quickStartCard'')]
               [tag ''div'' [cls (index_styles cx ''quickStartIcon'')] [Text (utf8 [0x1F4D6])],
                tag ''h3'' [] [Text ''Read the Introduction''],
                tag ''p'' [] [Text ''Get familiar with the knowledge base structure and navigation'']],
             El (Fn CLink) None
               [(''to'', PStr ''/docs/category/-security--firewall''),
                cls (index_styles cx ''quickStartCard'')]
               [tag ''div'' [cls (index_styles cx ''quickStartIcon'')] [Text (utf8 [0x1F512])],
                tag ''h3'' [] [Text ''Security & Firewall''],
                tag ''p'' [] [Text ''Secure your network with proven firewall configurations'']],
             El (Fn CLink) None
               [(''to'', PStr ''/docs/category/-routing--pbr''), cls (index_styles cx ''quickStartCard'')]
               [tag ''div'' [cls (index_styles cx ''quickStartIcon'')] [Text (utf8 [0x1F310])],
                tag ''h3'' [] [Text ''Routing Guides''],
                tag ''p'' [] [Text ''Master traffic routing and policy-based forwarding'']],
             El (Fn CLink) None [(''to'', PStr ''/blog''), cls (index_styles cx ''quickStartCard'')]
               [tag ''div'' [cls (index_styles cx ''quickStartIcon'')] [Text (utf8 [0x1F4DD])],
                tag ''h3'' [] [Text ''Latest Articles''],
                tag ''p'' [] [Text ''Stay updated with new guides and network engineering tips'']]]]]"

text \<open>The ``Get in Touch'' section (lines 179--199): plain anchors, the external one in a new tab.\<close>

definition connect_section :: "ctx \<Rightarrow> comp node" where
  "connect_section cx =
     tag ''section'' [cls (index_styles cx ''connectSection'')]
       [tag ''div'' [cls ''container'']
         [El (Fn CHeading) None [(''as'', PStr ''h2''), cls (index_styles cx ''connectTitle'')]
            [Text ''Get in Touch''],
          tag ''p'' [cls (index_styles cx ''connectDescription'')]
            [Text ''Have questions or feedback? Found a missing guide? I'd love to hear from you!''],
          tag ''div'' [cls (index_styles cx ''contactLinks'')]
            [tag ''a'' [(''href'', PStr ''https://github.com/Kintoyyy''),
                        cls (index_styles cx ''contactLink''),
                        (''target'', PStr ''_blank''), (''rel'', PStr ''noopener noreferrer'')]
               [tag ''span'' [] [Text (utf8 [0x1F419])], tag ''span'' [] [Text ''GitHub'']],
             tag ''a'' [(''href'', PStr ''mailto:kent.oyyyyyyy@gmail.com''),
                        cls (index_styles cx ''contactLink'')]
               [tag ''span'' [] [Text (utf8 [0x2709, 0xFE0F])], tag ''span'' [] [Text ''Email'']]]]]"

definition Home :: "ctx \<Rightarrow> comp props \<Rightarrow> comp node list \<Rightarrow> comp node" where
  "Home cx ps cs =
     El (Fn CLayout) None
       [(''title'', PStr (sc_title (siteConfig cx) @ '' - Network Infrastructure Knowledge Base'')),
        (''description'', PStr (''Comprehensive guides for MikroTik, Proxmox, and advanced '' @
           ''networking solutions. Real-world procedures, tested in production.''))]
       [El (Fn CHomepageHeader) None [] [],
        tag ''main'' []
          [tech_section cx, find_section cx, quick_start cx, connect_section cx]]"

declare HomepageHeader_def [page_defs] tech_section_def [page_defs] find_section_def [page_defs]
  quick_start_def [page_defs] connect_section_def [page_defs] Home_def [page_defs]
  index_styles_def [page_defs]

end
