(* ===== verification/Site.thy ===== *)
theory Site
  imports HomePage
begin

text \<open>
  The module graph of the site: which body each component of \<open>comp\<close> runs
  (\<open>site_body\<close>: the theme's components, the SVG assets, and the three function
  components of \<open>src/\<close> with \<open>Home\<close>), the mounted page \<open>home\<close> and its DOM
  \<open>home_dom\<close>, and the sample context \<open>cx0\<close> the witnesses use.  The lemmas discharge
  the interfaces \<open>theme_ok\<close> and \<open>features_ok\<close> for this environment.
\<close>

text \<open>
  The component environment of the built site: the theme components, one SVG component
  per asset, and the components of \<open>src/\<close> as the modules define them.
\<close>

fun site_body :: "ctx \<Rightarrow> comp body" where
  "site_body cx CHeading = Heading"
| "site_body cx CLink = Link (siteConfig cx)"
| "site_body cx CLayout = Layout (siteConfig cx)"
| "site_body cx (CSvg p) = SvgComponent p"
| "site_body cx CFeature = Feature cx"
| "site_body cx CHomepageFeatures = HomepageFeatures cx"
| "site_body cx CHomepageHeader = HomepageHeader cx"
| "site_body cx CHome = Home cx"

abbreviation home :: "comp node" where
  "home \<equiv> El (Fn CHome) None [] []"

definition home_dom :: "ctx \<Rightarrow> dom list" where
  "home_dom cx = (case render (site_body cx) 12 home of Inr ds \<Rightarrow> ds | Inl e \<Rightarrow> [])"

definition cx0 :: ctx where
  "cx0 = \<lparr>siteConfig = \<lparr>sc_title = ''KB'', sc_titleDelimiter = ''|'', sc_baseUrl = ''/''\<rparr>,
          css = (\<lambda>m k. k)\<rparr>"

text \<open>The same site with an empty title: the boundary case of \<open>siteConfig.title\<close>.\<close>

definition cx1 :: ctx where
  "cx1 = cx0\<lparr>siteConfig := (siteConfig cx0)\<lparr>sc_title := []\<rparr>\<rparr>"

subsection \<open>The interfaces hold\<close>

lemma site_body_theme_ok: "theme_ok cx (site_body cx)"
  by (simp add: theme_ok_def fun_eq_iff)

lemma home_render_Inr: "\<exists>ds. render (site_body cx) 12 home = Inr ds"
  by (simp add: page_defs)

lemma home_render_12: "render (site_body cx) 12 home = Inr (home_dom cx)"
  using home_render_Inr [of cx] by (auto simp: home_dom_def)

lemma site_body_features_ok: "features_ok cx (site_body cx)"
  by (simp add: features_ok_def site_body_theme_ok fun_eq_iff)

end
