(* ===== verification/Termination.thy ===== *)
theory Termination
  imports Site
begin

text \<open>
  Mounting never diverges.  React calls each function component once per element and
  descends into what it returns; the model's \<open>render\<close> counts these steps with fuel.
  For the site's component environment every element tree, whatever its props and
  children, mounts within fuel \<open>21 * size x + 21\<close>: it gives a DOM or one of React's
  errors, never \<open>OutOfFuel\<close>.  The only component that forwards its input to another
  component is \<open>Heading\<close> (its \<open>as\<close> prop may name one); it drops \<open>as\<close> on the way, so
  the chain stops after one step.  \<open>Feature\<close> calls its \<open>Svg\<close> prop with fixed props and
  no children, and \<open>Home\<close>, \<open>HomepageHeader\<close> and \<open>HomepageFeatures\<close> ignore their
  inputs; all of these have a fixed depth (at most 16).
\<close>

abbreviation svg_props :: "string \<Rightarrow> comp props" where
  "svg_props s \<equiv> [cls s, (''role'', PStr ''img'')]"

text \<open>\<open>y\<close> never runs out of fuel from \<open>g\<close> on.\<close>

definition nf_from :: "comp body \<Rightarrow> nat \<Rightarrow> comp node \<Rightarrow> bool" where
  "nf_from b g y \<longleftrightarrow> (\<forall>n. g \<le> n \<longrightarrow> render b n y \<noteq> Inl OutOfFuel)"

text \<open>The same of every input of a component: its children and its element-valued props.\<close>

definition inputs_nf :: "comp body \<Rightarrow> nat \<Rightarrow> comp props \<Rightarrow> comp node list \<Rightarrow> bool" where
  "inputs_nf b g ps cs \<longleftrightarrow>
     (\<forall>y \<in> set cs. nf_from b g y) \<and> (\<forall>k y. (k, PNode y) \<in> set ps \<longrightarrow> nf_from b g y)"

subsection \<open>One rule per kind of element\<close>

lemma nf_from_mono: "nf_from b g y \<Longrightarrow> g \<le> g' \<Longrightarrow> nf_from b g' y"
  by (simp add: nf_from_def)

lemma nf_from_at: "render b g y \<noteq> Inl OutOfFuel \<Longrightarrow> nf_from b g y"
  unfolding nf_from_def by (metis render_fuel_mono)

lemma nf_from_Suc:
  "(\<And>m. g \<le> m \<Longrightarrow> render b (Suc m) y \<noteq> Inl OutOfFuel) \<Longrightarrow> nf_from b (Suc g) y"
  unfolding nf_from_def by (metis Suc_le_D Suc_le_mono)

lemma nf_Text: "nf_from b (Suc g) (Text s)"
  by (rule nf_from_Suc) simp

lemma nf_Undef: "nf_from b (Suc g) (El Undef k ps cs)"
  by (rule nf_from_Suc) simp

lemma nf_Undef_pos: "0 < g \<Longrightarrow> nf_from b g (El Undef k ps cs)"
  by (cases g) (simp_all add: nf_Undef)

lemma nf_Text_pos: "0 < g \<Longrightarrow> nf_from b g (Text s)"
  by (cases g) (simp_all add: nf_Text)

lemma nf_Host: "(\<And>y. y \<in> set cs \<Longrightarrow> nf_from b g y) \<Longrightarrow> nf_from b (Suc g) (El (Host t) k ps cs)"
proof (rule nf_from_Suc)
  fix m assume "\<And>y. y \<in> set cs \<Longrightarrow> nf_from b g y" "g \<le> m"
  then have "sequence (map (render b m) cs) \<noteq> Inl OutOfFuel"
    by (intro sequence_map_not_Inl) (auto simp: nf_from_def)
  then show "render b (Suc m) (El (Host t) k ps cs) \<noteq> Inl OutOfFuel"
    by (auto split: sum.splits)
qed

lemma nf_Fragment: "(\<And>y. y \<in> set cs \<Longrightarrow> nf_from b g y) \<Longrightarrow> nf_from b (Suc g) (El Fragment k ps cs)"
proof (rule nf_from_Suc)
  fix m assume "\<And>y. y \<in> set cs \<Longrightarrow> nf_from b g y" "g \<le> m"
  then have "sequence (map (render b m) cs) \<noteq> Inl OutOfFuel"
    by (intro sequence_map_not_Inl) (auto simp: nf_from_def)
  then show "render b (Suc m) (El Fragment k ps cs) \<noteq> Inl OutOfFuel"
    by (auto split: sum.splits)
qed

lemma nf_Fn: "nf_from b g (b c ps cs) \<Longrightarrow> nf_from b (Suc g) (El (Fn c) k ps cs)"
  by (rule nf_from_Suc) (simp add: nf_from_def)

lemma nf_child:
  assumes "\<And>y. v = Some (PNode y) \<Longrightarrow> nf_from b g y"
  shows "nf_from b (Suc g) (child v)"
proof (cases v rule: child.cases)
  case (2 n)
  then show ?thesis using assms nf_from_mono [of b g n "Suc g"] by simp
qed (auto simp: frag_def intro: nf_Text nf_Fragment)

lemma inputs_nf_filter:
  "inputs_nf b g ps cs \<Longrightarrow> inputs_nf b g (filter P ps) cs"
  by (auto simp: inputs_nf_def)

lemma inputs_nf_prop:
  "inputs_nf b g ps cs \<Longrightarrow> map_of ps k = Some (PNode y) \<Longrightarrow> nf_from b g y"
  by (auto simp: inputs_nf_def dest: map_of_SomeD)

subsection \<open>The components of the site\<close>

lemma nf_Home: "nf_from (site_body cx) 15 (site_body cx CHome ps cs)"
proof -
  have "render (site_body cx) 11 (Home cx ps cs) = render (site_body cx) 12 home"
    by (simp add: Home_def)
  then have "render (site_body cx) 11 (Home cx ps cs) \<noteq> Inl OutOfFuel"
    using home_render_Inr [of cx] by auto
  from nf_from_mono [OF nf_from_at [OF this]] show ?thesis by (simp del: render_numeral)
qed

lemma nf_HomepageFeatures: "nf_from (site_body cx) 15 (site_body cx CHomepageFeatures ps cs)"
proof -
  have "render (site_body cx) 10 (HomepageFeatures cx ps cs) =
        render (site_body cx) 11 (El (Fn CHomepageFeatures) None [] [])"
    by (simp add: HomepageFeatures_def)
  then have "render (site_body cx) 10 (HomepageFeatures cx ps cs) \<noteq> Inl OutOfFuel"
    using render_HomepageFeatures [OF site_body_features_ok, of cx] by simp
  from nf_from_mono [OF nf_from_at [OF this]] show ?thesis by simp
qed

lemma nf_HomepageHeader: "nf_from (site_body cx) 15 (site_body cx CHomepageHeader ps cs)"
  unfolding site_body.simps by (rule nf_from_at) (simp add: page_defs)

lemma nf_svg_element: "nf_from (site_body cx) 16 (El (Fn c) None (svg_props s) [])"
proof (cases c)
  case CHome then show ?thesis using nf_Fn [OF nf_Home] by (simp add: numeral_eq_Suc)
next
  case CHomepageFeatures then show ?thesis using nf_Fn [OF nf_HomepageFeatures] by (simp add: numeral_eq_Suc)
next
  case CHomepageHeader then show ?thesis using nf_Fn [OF nf_HomepageHeader] by (simp add: numeral_eq_Suc)
qed (rule nf_from_at, simp add: page_defs Feature_def)+

lemma nf_host_inputs:
  "inputs_nf b g ps cs \<Longrightarrow> nf_from b (Suc g) (El (Host t) k ps' cs)"
  by (rule nf_Host) (simp add: inputs_nf_def)

lemma nf_Feature:
  assumes "inputs_nf (site_body cx) g ps cs"
  shows "nf_from (site_body cx) (g + 19) (site_body cx CFeature ps cs)"
proof -
  let ?b = "site_body cx"
  have svg: "nf_from ?b (g + 17) (El (etype_of (map_of ps ''Svg'')) None
               (svg_props (feature_styles cx ''featureSvg'')) [])"
  proof (cases "map_of ps ''Svg''" rule: etype_of.cases)
    case (1 c)
    then show ?thesis using nf_from_mono [OF nf_svg_element, of "g + 17"] by simp
  qed (auto intro: nf_from_mono [OF nf_Undef] nf_from_mono [OF nf_Host])
  have title: "nf_from ?b (Suc (Suc (Suc g)))
                 (El (Fn CHeading) None [(''as'', PStr ''h3'')] [child (map_of ps ''title'')])"
    using inputs_nf_prop [OF assms] by (auto simp: Heading_def intro!: nf_Fn nf_Host nf_child)
  have desc: "nf_from ?b (Suc (Suc g)) (tag ''p'' [] [child (map_of ps ''description'')])"
    using inputs_nf_prop [OF assms] by (auto intro!: nf_Host nf_child)
  have row: "nf_from ?b (Suc (g + 17)) (tag ''div'' [cls ''text--center padding-horiz--md'']
               [El (Fn CHeading) None [(''as'', PStr ''h3'')] [child (map_of ps ''title'')],
                tag ''p'' [] [child (map_of ps ''description'')]])"
    by (rule nf_Host) (auto intro: nf_from_mono [OF title] nf_from_mono [OF desc])
  have img: "nf_from ?b (Suc (g + 17)) (tag ''div'' [cls ''text--center'']
               [El (etype_of (map_of ps ''Svg'')) None (svg_props (feature_styles cx ''featureSvg'')) []])"
    by (rule nf_Host) (simp add: svg)
  have "nf_from ?b (Suc (Suc (g + 17))) (Feature cx ps cs)"
    unfolding Feature_def by (rule nf_Host) (use row img in auto)
  then show ?thesis by (simp add: add.commute)
qed

lemma nf_body:
  assumes "inputs_nf (site_body cx) g ps cs" and "c \<noteq> CHeading"
  shows "nf_from (site_body cx) (g + 19) (site_body cx c ps cs)"
proof (cases c)
  case CLink
  have "nf_from (site_body cx) (Suc g) (Link (siteConfig cx) ps cs)"
    using nf_host_inputs [OF assms(1)] by (simp add: Link_def split: option.split pval.split)
  then show ?thesis using CLink nf_from_mono by fastforce
next
  case CLayout
  have "nf_from (site_body cx) (Suc (Suc (Suc g))) (Layout (siteConfig cx) ps cs)"
    unfolding Layout_def frag_def
    by (intro nf_Fragment) (auto intro!: nf_Host nf_Text nf_from_mono [OF nf_host_inputs [OF assms(1)]])
  then show ?thesis using CLayout nf_from_mono by fastforce
next
  case (CSvg p)
  have "nf_from (site_body cx) (Suc g) (SvgComponent p ps cs)"
    unfolding SvgComponent_def by (rule nf_Host) simp
  then show ?thesis using CSvg nf_from_mono by fastforce
next
  case CFeature then show ?thesis using nf_Feature [OF assms(1)] by simp
next
  case CHomepageFeatures then show ?thesis using nf_from_mono [OF nf_HomepageFeatures, of "g + 19"] by simp
next
  case CHomepageHeader then show ?thesis using nf_from_mono [OF nf_HomepageHeader, of "g + 19"] by simp
next
  case CHome then show ?thesis using nf_from_mono [OF nf_Home, of "g + 19"] by simp
qed (use assms in simp)

lemma nf_Heading:
  assumes "inputs_nf (site_body cx) g ps cs"
  shows "nf_from (site_body cx) (g + 20) (site_body cx CHeading ps cs)"
proof -
  let ?b = "site_body cx" and ?ps' = "filter (\<lambda>(k, v). k \<noteq> ''as'') ps"
  have "nf_from ?b (Suc (g + 19)) (El (etype_of (map_of ps ''as'')) None ?ps' cs)"
  proof (cases "map_of ps ''as''" rule: etype_of.cases)
    case (1 c)
    have "nf_from ?b (g + 19) (?b c ?ps' cs)"
    proof (cases "c = CHeading")
      case True
      have "map_of ?ps' ''as'' = None" by (induction ps) auto
      then show ?thesis using True by (simp add: Heading_def nf_Undef_pos)
    qed (rule nf_body [OF inputs_nf_filter [OF assms]])
    then show ?thesis using 1 by (simp only: etype_of.simps nf_Fn)
  next
    case (2 s)
    then show ?thesis using nf_from_mono [OF nf_host_inputs [OF assms]] by simp
  qed (simp_all add: nf_Undef_pos)
  then show ?thesis by (simp add: Heading_def add.commute)
qed

subsection \<open>Every tree mounts\<close>

lemma nf_inputs_smaller:
  assumes "\<And>y. size y < size (El (Fn c) k ps cs) \<Longrightarrow> nf_from b (21 * size y + 21) y"
  shows "inputs_nf b (21 * size (El (Fn c) k ps cs)) ps cs"
proof -
  have "nf_from b (21 * size (El (Fn c) k ps cs)) y" if "size y < size (El (Fn c) k ps cs)" for y
  proof -
    from that have "21 * size y + 21 \<le> 21 * size (El (Fn c) k ps cs)" by linarith
    with assms [OF that] show ?thesis by (rule nf_from_mono)
  qed
  moreover have "size y < size (El (Fn c) k ps cs)"
    if "y \<in> set cs \<or> (\<exists>k'. (k', PNode y) \<in> set ps)" for y
    using that size_child_lt size_prop_lt by blast
  ultimately show ?thesis unfolding inputs_nf_def by blast
qed

lemma nf_render: "nf_from (site_body cx) (21 * size x + 21) x"
proof (induction x rule: measure_induct_rule [where f = size])
  case (less x)
  show ?case
  proof (cases x)
    case (Text s) then show ?thesis by (simp add: nf_Text_pos)
  next
    case (El t k ps cs)
    have ch: "nf_from (site_body cx) (21 * size x + 20) y" if "y \<in> set cs" for y
    proof -
      from size_child_lt [OF that] El have "size y < size x" by simp
      then have "21 * size y + 21 \<le> 21 * size x + 20" by linarith
      with less [OF \<open>size y < size x\<close>] show ?thesis by (rule nf_from_mono)
    qed
    show ?thesis
    proof (cases t)
      case (Host s)
      then show ?thesis using El ch nf_Host by fastforce
    next
      case Fragment
      then show ?thesis using El ch nf_Fragment by fastforce
    next
      case Undef
      then show ?thesis using El by (simp add: nf_Undef_pos)
    next
      case (Fn c)
      let ?g = "21 * size x"
      have inp: "inputs_nf (site_body cx) ?g ps cs"
        using nf_inputs_smaller [of c k ps cs "site_body cx"] less El Fn by simp
      have "nf_from (site_body cx) (?g + 20) (site_body cx c ps cs)"
        using nf_Heading [OF inp] nf_body [OF inp] nf_from_mono by (cases "c = CHeading") fastforce+
      then show ?thesis using El Fn nf_Fn by fastforce
    qed
  qed
qed

text \<open>C18: Mounting never diverges: for every element tree built from the site's components, whatever its props and children, fuel 21 * size + 21 gives a DOM or a React error, never OutOfFuel.\<close>

theorem site_render_terminates:
  "21 * size x + 21 \<le> n \<Longrightarrow> render (site_body cx) n x \<noteq> Inl OutOfFuel"
  using nf_render [of cx x] by (simp add: nf_from_def)

theorem site_render_terminates_witness:
  "render (site_body cx0) 63 home \<noteq> Inl OutOfFuel"
  using site_render_terminates [of home 63 cx0] by simp

end
