(* ===== verification/Typing.thy ===== *)
theory Typing
  imports Termination
begin

text \<open>
  Which element trees mount without an error.  A typing judgement \<open>wt\<close> on element trees
  states what each component needs of its props: \<open>Heading\<close> needs a tag in \<open>as\<close>,
  \<open>Feature\<close> needs an \<open>Svg\<close> it can use as an element type (a tag, or a component other
  than \<open>Heading\<close> and \<open>Feature\<close>, which would need props the card does not pass); an
  \<open>undefined\<close> element type is never well typed.  \<open>wt_check\<close> decides it.  Type
  soundness in the usual two halves: the body a well-typed call returns is well typed
  (preservation), so mounting a well-typed tree never throws \<open>InvalidElementType\<close>;
  with the fuel bound of \<open>Termination\<close> it always gives a DOM.
\<close>

subsection \<open>The typing judgement\<close>

text \<open>What a component needs of its props.\<close>

fun comp_ok :: "comp \<Rightarrow> comp props \<Rightarrow> bool" where
  "comp_ok CHeading ps = (case map_of ps ''as'' of Some (PStr t) \<Rightarrow> True | _ \<Rightarrow> False)"
| "comp_ok CFeature ps =
     (case map_of ps ''Svg'' of
        Some (PStr t) \<Rightarrow> True
      | Some (PFn c) \<Rightarrow> c \<noteq> CHeading \<and> c \<noteq> CFeature
      | _ \<Rightarrow> False)"
| "comp_ok c ps = True"

text \<open>Well-typed element trees: every component gets the props it needs, at every depth.\<close>

inductive wt :: "comp node \<Rightarrow> bool" where
  wt_Text: "wt (Text s)"
| wt_Host: "\<forall>y \<in> set cs. wt y \<Longrightarrow> wt (El (Host t) k ps cs)"
| wt_Fragment: "\<forall>y \<in> set cs. wt y \<Longrightarrow> wt (El Fragment k ps cs)"
| wt_Fn: "comp_ok c ps \<Longrightarrow> \<forall>y \<in> set cs. wt y \<Longrightarrow> \<forall>k' y. (k', PNode y) \<in> set ps \<longrightarrow> wt y \<Longrightarrow>
          wt (El (Fn c) k ps cs)"

text \<open>The executable checker.\<close>

fun wt_check :: "comp node \<Rightarrow> bool" where
  "wt_check (Text s) = True"
| "wt_check (El (Host t) k ps cs) = list_all wt_check cs"
| "wt_check (El Fragment k ps cs) = list_all wt_check cs"
| "wt_check (El Undef k ps cs) = False"
| "wt_check (El (Fn c) k ps cs) =
     (comp_ok c ps \<and> list_all wt_check cs \<and>
      list_all (\<lambda>(k', v). case v of PNode y \<Rightarrow> wt_check y | _ \<Rightarrow> True) ps)"

subsection \<open>Preservation and progress\<close>

inductive_simps wt_simps [simp]:
  "wt (Text s)" "wt (El (Host t) k ps cs)" "wt (El Fragment k ps cs)" "wt (El Undef k ps cs)"
  "wt (El (Fn c) k ps cs)"

lemma wt_check_iff: "wt_check x \<longleftrightarrow> wt x"
proof (induction x rule: wt_check.induct)
  case (5 c k ps cs)
  have "list_all (\<lambda>(k', v). case v of PNode y \<Rightarrow> wt_check y | _ \<Rightarrow> True) ps \<longleftrightarrow>
        (\<forall>k' y. (k', PNode y) \<in> set ps \<longrightarrow> wt y)"
    using "5.IH"(2) by (fastforce simp: list_all_iff split: pval.splits)
  with "5.IH"(1) show ?case by (simp add: list_all_iff)
qed (simp_all add: list_all_iff)

lemma comp_ok_other: "c \<noteq> CHeading \<Longrightarrow> c \<noteq> CFeature \<Longrightarrow> comp_ok c ps"
  by (cases c) simp_all

lemma wt_Home: "wt (site_body cx CHome ps cs)"
  by (simp add: wt_check_iff [symmetric] page_defs)

lemma wt_HomepageHeader: "wt (site_body cx CHomepageHeader ps cs)"
  by (simp add: wt_check_iff [symmetric] page_defs)

lemma wt_HomepageFeatures: "wt (site_body cx CHomepageFeatures ps cs)"
  by (simp add: wt_check_iff [symmetric] page_defs HomepageFeatures_def features_section_def
      features_row_def FeatureList_def feature_props_def)

lemma wt_child: "(\<And>y. v = Some (PNode y) \<Longrightarrow> wt y) \<Longrightarrow> wt (child v)"
  by (cases v rule: child.cases) (simp_all add: frag_def)

lemma wt_body:
  assumes "wt (El (Fn c) k ps cs)"
  shows "wt (site_body cx c ps cs)"
proof (cases c)
  case CHeading
  then show ?thesis using assms by (auto simp: Heading_def split: option.splits pval.splits)
next
  case CFeature
  have svg: "wt (El (etype_of (map_of ps ''Svg'')) None [cls s, (''role'', PStr ''img'')] [])" for s
    using assms CFeature by (cases "map_of ps ''Svg''" rule: etype_of.cases) (auto intro: comp_ok_other)
  have "wt (child (map_of ps f))" for f
    using assms by (intro wt_child) (auto dest: map_of_SomeD)
  then show ?thesis using CFeature svg by (simp add: Feature_def)
qed (use assms wt_Home wt_HomepageHeader wt_HomepageFeatures in \<open>auto simp: Link_def Layout_def
       SvgComponent_def frag_def split: option.splits pval.splits\<close>)

lemma wt_no_invalid: "wt x \<Longrightarrow> render (site_body cx) n x \<noteq> Inl InvalidElementType"
proof (induction n arbitrary: x)
  case (Suc n)
  have seq: "sequence (map (render (site_body cx) n) cs) \<noteq> Inl InvalidElementType"
    if "\<forall>y \<in> set cs. wt y" for cs
    using that Suc.IH by (intro sequence_map_not_Inl) blast
  from Suc.prems show ?case
  proof (cases rule: wt.cases)
    case (wt_Fn c ps cs k)
    then show ?thesis using Suc.IH wt_body Suc.prems by simp
  qed (auto dest!: seq split: sum.splits)
qed simp

subsection \<open>Type soundness\<close>

text \<open>C20: Preservation: when a call of a site component is well typed, the element tree its body returns is well typed.\<close>

theorem wt_preservation:
  "wt (El (Fn c) k ps cs) \<Longrightarrow> wt (site_body cx c ps cs)"
  by (rule wt_body)

text \<open>C21: A well-typed element tree never makes React throw for an invalid element type, at any fuel: the only way its mount can fail is running out of fuel.\<close>

theorem wt_never_invalid:
  "wt x \<Longrightarrow> render (site_body cx) n x \<noteq> Inl InvalidElementType"
  by (rule wt_no_invalid)

subsection \<open>Witnesses\<close>

lemma wt_home: "wt home"
  by simp

theorem wt_preservation_witness: "wt home \<and> wt (site_body cx0 CHome [] [])"
  using wt_home wt_preservation [of CHome None "[]" "[]" cx0] by simp

theorem wt_never_invalid_witness:
  "wt home \<and> render (site_body cx0) 7 home \<noteq> Inl InvalidElementType"
  using wt_home wt_never_invalid [of home cx0 7] by simp

end
