(* ===== verification/Spec2Isabelle.thy ===== *)
theory Spec2Isabelle
  imports Typing
begin

text \<open>
  \<^bold>\<open>Verification development of the kb.kintoyyy.com homepage.\<close>

  The repository is a Docusaurus site; its code under \<open>src/\<close> is two React modules:
  \<^item> \<open>src/components/HomepageFeatures/index.js\<close>: the constant \<open>FeatureList\<close> (three
    feature records: title, SVG asset, description), the card component \<open>Feature\<close> and the
    section \<open>HomepageFeatures\<close> that maps the list to cards keyed by index;
  \<^item> \<open>src/pages/index.js\<close>: the hero banner \<open>HomepageHeader\<close> (reads
    \<open>siteConfig.title\<close>) and the page \<open>Home\<close> (technology badges, a feature grid, quick-start
    links, contact links) inside the theme's \<open>Layout\<close>.  \<open>Home\<close> imports
    \<open>HomepageFeatures\<close> but its only use is commented out.
  The components interact only by composition: an element names a component and passes
  props; React calls the component and mounts what it returns.  There is no state, no I/O and
  no concurrency; the behaviour worth verifying is what each page renders, its structure
  (outline, links, keys) and the error paths of the JSX when props are missing.

  \<^bold>\<open>Theories.\<close>
  \<^item> \<open>Prelude\<close>: the sequencing of fallible results (\<open>sequence\<close>, first error wins),
    UTF-8 encoding of code points (the emoji of the sources) and a validating decoder
    \<open>utf8_decode\<close> (no overlong forms, no surrogates, nothing above U+10FFFF) with the
    round trip in both directions: decoding an encoding gives the code points back
    (\<open>utf8_roundtrip\<close>), and a byte string the decoder accepts is the encoding of what it
    decodes to (\<open>utf8_decode_sound\<close>); ASCII strings as their own encoding; list
    lemmas, rule collections \<open>page_defs\<close> and \<open>dom_simps\<close>.
  \<^item> \<open>VDom\<close>: the execution model, generic in the component type: React elements
    (\<open>node\<close>: type, key, props, children), \<open>render\<close> (React DOM mount, errors
    \<open>OutOfFuel\<close> and \<open>InvalidElementType\<close> as values), the trace \<open>calls\<close>, and DOM queries
    (\<open>text_content\<close>, \<open>texts\<close>, \<open>by_tag\<close>, \<open>headings\<close>, \<open>outline_ok\<close>, \<open>anchors\<close>,
    and \<open>content_ok\<close>, HTML's rule that phrasing elements hold only phrasing content and
    anchors do not nest).
    Lemmas: more fuel never changes a result (\<open>render_fuel_mono\<close>); a host-only tree renders
    to itself (\<open>render_to_node\<close>).
  \<^item> \<open>Theme\<close>: the site's component type \<open>comp\<close>, the context (\<open>siteConfig\<close>, CSS-module
    class names \<open>css\<close>, left abstract so every theorem holds for any generated names), and the
    collaborators the sources import: \<open>clsx\<close>, \<open>Heading\<close>, \<open>Link\<close> (with
    \<open>useBaseUrl\<close> as \<open>with_base\<close>, every branch of \<open>addBaseUrl\<close>: fragments and
    protocols, the base without its trailing slash, a URL already under the base), \<open>Layout\<close>
    (with the document-title formatter and JavaScript's \<open>trim\<close> over code points, with all
    of ECMAScript's white space) and SVG components, modelled from their documentation.  \<open>theme_ok\<close> is the interface the
    page components assume of a component environment.
  \<^item> \<open>HomepageFeatures\<close>: \<open>FeatureList\<close>, \<open>Feature\<close>, \<open>features_row\<close> (the
    \<open>.map\<close> with keys), \<open>features_section\<close> (the section for any list) and
    \<open>HomepageFeatures\<close>.  Lemmas: the rendered section for any list of features, read back
    as (title, description text) cards in input order; distinct keys; the error when
    \<open>Svg\<close> is missing and the empty card when title and description are; the three cards
    of the constant list, their outline and the role of their images.
  \<^item> \<open>HomePage\<close>: \<open>HomepageHeader\<close> and \<open>Home\<close>, one definition per section of the page.
  \<^item> \<open>Site\<close>: \<open>site_body\<close>, the module graph (which body each component runs), and the
    rendered page \<open>home_dom\<close>; it discharges \<open>theme_ok\<close> and \<open>features_ok\<close>.
  \<^item> \<open>Termination\<close>: every element tree over the site's components mounts within fuel
    \<open>21 * size x + 21\<close> (a DOM or a React error, never divergence), by strong induction on
    the size of the tree with one lemma per component.
  \<^item> \<open>Typing\<close>: a typing judgement \<open>wt\<close> on element trees (what each component needs
    of its props), its executable checker \<open>wt_check\<close>, and type soundness: preservation
    by the component bodies, and no \<open>InvalidElementType\<close> for well-typed trees.
  \<^item> this theory: the properties of the whole page: it renders without
    error, its heading outline skips no level, the only new-tab link has
    \<open>rel="noopener noreferrer"\<close>, its link targets, the hero heading, the document title,
    that \<open>HomepageFeatures\<close> is never called, the content model, links under the base
    URL, the empty-title boundary and named links.

  \<^bold>\<open>Fuel.\<close>  \<open>render\<close> spends one unit per element level, component calls included.
  The deepest path of \<open>Home\<close> is Home, Layout, fragment, main wrapper, main, section,
  container, grid, Link, anchor, heading, text: twelve levels, so fuel 12 renders it, and by
  \<open>render_fuel_mono\<close> any larger fuel gives the same DOM (\<open>Home_renders\<close>).  Fuel is a
  device of the model (React has none): the theorems hold for all fuel above a bound, so
  they speak of the mount, not of the fuel.
  \<open>HomepageFeatures\<close> needs eight levels above a description's own depth.  For an
  arbitrary tree the bound is \<open>21 * size x + 21\<close>: a component adds at most 20 levels
  above its inputs (\<open>Heading\<close> forwarding to \<open>Feature\<close>, whose \<open>Svg\<close> child may be a
  fixed page of depth at most 16), and every input is smaller than the element.

  \<^bold>\<open>Properties.\<close>  Refinement of the feature section to its abstract card list
  (C1, C2), key distinctness (C3), the missing-\<open>Svg\<close> error (C4) and the empty-text card
  (C16); the page mounts for every configuration (C5); outline and accessibility (C6, C14,
  C15, C23); link safety and targets (C7, C8, C19); the dead import of
  \<open>HomepageFeatures\<close> (C9); the text of the title and headings (C10, C11, C13) and the
  empty-title boundary (C22); independence of the DOM from the CSS-module naming (C12); the
  content model (C17); termination of mounting (C18); type soundness of the site's
  components: preservation (C20) and no invalid element type (C21).

  \<^bold>\<open>Coverage.\<close>  Every statement of the two modules under \<open>src/\<close> is modelled: each
  JSX tree is a definition, each \<open>.map\<close> and each prop spread is one, and the imports are
  the component environment \<open>site_body\<close>.  The only
  source lines without a definition are blank lines and the import of \<open>clsx\<close>, whose
  function the theory \<open>Theme\<close> models from its documentation.

  \<^bold>\<open>Not modelled.\<close>  The CSS modules (\<open>styles.module.css\<close>, \<open>index.module.css\<close>)
  and the SVG files are not in the repository's sources: class names are an arbitrary
  naming \<open>css\<close> and every theorem holds for all of them.  The navbar and footer that
  \<open>Layout\<close> builds from \<open>docusaurus.config.js\<close>, and the documentation pages the links
  point to, are not in the sources either, so the theme is modelled only as far as the
  page uses it (\<open>Heading\<close>, \<open>Link\<close>, the metadata and main wrapper of \<open>Layout\<close>).  React's
  reconciliation on updates is left out: the pages have no state, so they are mounted once.
  Numeric keys are kept as numbers rather than coerced to strings; the coercion is
  injective, so key distinctness (C3) is unaffected.  The \<open>ErrorBoundary\<close> of \<open>Layout\<close> is
  left out: an error is the value \<open>Inl\<close> of the mount, not a fallback page.  The
  commented-out \<open><HomepageFeatures /> \<close> in \<open>Home\<close> is not part of the program; C9 proves it
  is never rendered and C14 gives the outline the section would have.
\<close>

text \<open>C5: The Home page mounts without error for every site configuration and CSS naming: with fuel 12 or more the render returns the page's DOM.\<close>

theorem Home_renders:
  "12 \<le> n \<Longrightarrow> render (site_body cx) n home = Inr (home_dom cx)"
  using render_fuel_mono [of "site_body cx" 12 home n] home_render_12 [of cx] by simp

theorem Home_renders_witness: "render (site_body cx0) 20 home = Inr (home_dom cx0)"
  using Home_renders [of 20 cx0] by simp

text \<open>C6: The heading outline of the rendered Home page is h1, then h2 sections with h3 items, and never skips a level.\<close>

theorem Home_outline:
  "concat (map headings (home_dom cx)) = [1, 2, 2, 3, 3, 3, 3, 3, 3, 2, 3, 3, 3, 3, 2] \<and>
   outline_ok 0 (concat (map headings (home_dom cx)))"
  by (simp add: home_dom_def page_defs dom_simps)

text \<open>C7: The only anchor of the Home page that opens a new tab is the GitHub link, and it carries rel="noopener noreferrer".\<close>

theorem Home_new_tab_links:
  "filter (\<lambda>as. map_of as ''target'' = Some ''_blank'') (concat (map anchors (home_dom cx))) =
   [[(''href'', ''https://github.com/Kintoyyy''), (''className'', index_styles cx ''contactLink''),
     (''target'', ''_blank''), (''rel'', ''noopener noreferrer'')]]"
  by (simp add: home_dom_def page_defs)

text \<open>C8: The anchors of the Home page, in document order, are the two hero buttons, the four quick-start cards (targets resolved against the base URL), GitHub and e-mail, each with its visible label.\<close>

theorem Home_links:
  "map (\<lambda>d. (attr d ''href'', text_content d)) (concat (map (by_tag ''a'') (home_dom cx))) =
   map (\<lambda>(u, l). (Some (with_base (sc_baseUrl (siteConfig cx)) u), l))
     [(''/docs/intro'', utf8 [0x1F4D6] @ '' Explore Documentation''),
      (''/docs/category/mikrotik'', utf8 [0x1F527] @ '' MikroTik Guides''),
      (''/docs/intro'', utf8 [0x1F4D6] @ ''Read the Introduction'' @
         ''Get familiar with the knowledge base structure and navigation''),
      (''/docs/category/-security--firewall'', utf8 [0x1F512] @ ''Security & Firewall'' @
         ''Secure your network with proven firewall configurations''),
      (''/docs/category/-routing--pbr'', utf8 [0x1F310] @ ''Routing Guides'' @
         ''Master traffic routing and policy-based forwarding''),
      (''/blog'', utf8 [0x1F4DD] @ ''Latest Articles'' @
         ''Stay updated with new guides and network engineering tips'')] @
   [(Some ''https://github.com/Kintoyyy'', utf8 [0x1F419] @ ''GitHub''),
    (Some ''mailto:kent.oyyyyyyy@gmail.com'', utf8 [0x2709, 0xFE0F] @ ''Email'')]"
  by (simp add: home_dom_def page_defs)

text \<open>C13: The h2 headings of Home are the four section titles and its h3 headings the six grid items and four quick-start cards, in order.\<close>

theorem Home_section_headings:
  "map text_content (concat (map (by_tag ''h2'') (home_dom cx))) =
     [''Technologies Covered'', ''What You'll Find Here'', ''Quick Start'', ''Get in Touch''] \<and>
   map text_content (concat (map (by_tag ''h3'') (home_dom cx))) =
     [''Network Routing & Security'', ''ISP Infrastructure'', ''Virtualization'',
      ''Monitoring & Alerts'', ''Bandwidth Management'', ''Automation'',
      ''Read the Introduction'', ''Security & Firewall'', ''Routing Guides'', ''Latest Articles'']"
  by (simp add: home_dom_def page_defs)

text \<open>C12: The CSS-module class naming affects only className attributes: two contexts with the same siteConfig render Home to the same DOM once class attributes are removed.\<close>

theorem Home_css_frame:
  "siteConfig cx = siteConfig cx' \<Longrightarrow> map strip_class (home_dom cx) = map strip_class (home_dom cx')"
  by (simp add: home_dom_def page_defs)

text \<open>C9: Rendering Home calls only Home, Layout, HomepageHeader, Heading and Link: HomepageFeatures and Feature are never called although HomepageFeatures is imported.\<close>

theorem Home_never_renders_features:
  "set (calls (site_body cx) 12 home) = {CHome, CLayout, CHomepageHeader, CHeading, CLink}"
  by (auto simp: page_defs)

text \<open>C11: The only h1 of the Home page reads the books emoji, a space and siteConfig.title.\<close>

theorem Home_hero_heading:
  "map text_content (concat (map (by_tag ''h1'') (home_dom cx))) =
   [utf8 [0x1F4DA] @ '' '' @ sc_title (siteConfig cx)]"
  by (simp add: home_dom_def page_defs)

text \<open>C10: When siteConfig.title is a non-empty string whose first character is not JavaScript white space, the document title of Home is the site title, ' - Network Infrastructure Knowledge Base', the delimiter and the site title again: the page title that Home passes already names the site, and the theme appends it a second time.\<close>

theorem Home_document_title:
  assumes "sc_title (siteConfig cx) = utf8 cs" and "list_all valid_cp cs"
    and "cs \<noteq> []" and "\<not> js_space (hd cs)"
  shows "map text_content (concat (map (by_tag ''title'') (home_dom cx))) =
    [sc_title (siteConfig cx) @ '' - Network Infrastructure Knowledge Base '' @
     sc_titleDelimiter (siteConfig cx) @ '' '' @ sc_title (siteConfig cx)]"
proof -
  let ?s = "'' - Network Infrastructure Knowledge Base''"
  let ?ds = "map of_char ?s :: nat list"
  have a: "list_all (\<lambda>c. of_char c < (0x80::nat)) ?s" by (simp add: of_char_ascii)
  have e: "sc_title (siteConfig cx) @ ?s = utf8 (cs @ ?ds)"
    using assms(1) utf8_ascii [OF a] by simp
  have v: "list_all valid_cp (cs @ ?ds)" using assms(2) ascii_valid [OF a] by simp
  have d1: "dropWhile js_space (cs @ ?ds) = cs @ ?ds"
    using assms(3,4) by (cases cs) simp_all
  have sp: "\<not> js_space 101" by (simp add: js_space_def)
  have d2: "dropWhile js_space (rev (cs @ ?ds)) = rev (cs @ ?ds)"
    using sp by simp
  have "rev (dropWhile js_space (rev (dropWhile js_space (cs @ ?ds)))) = cs @ ?ds"
    by (simp only: d1 d2 rev_rev_ident)
  with trim_utf8 [OF v] e have "trim (sc_title (siteConfig cx) @ ?s) = sc_title (siteConfig cx) @ ?s"
    by simp
  then show ?thesis by (simp add: home_dom_def page_defs format_title_def)
qed

text \<open>C17: The rendered Home page respects HTML's content model: paragraphs, headings and spans contain only phrasing content, and no anchor is nested in another.\<close>

theorem Home_content_model: "list_all (content_ok False False) (home_dom cx)"
  by (simp add: home_dom_def page_defs dom_simps)

lemma home_hrefs:
  "map (\<lambda>d. attr d ''href'') (concat (map (by_tag ''a'') (home_dom cx))) =
   map (\<lambda>u. Some (with_base (sc_baseUrl (siteConfig cx)) u))
     [''/docs/intro'', ''/docs/category/mikrotik'', ''/docs/intro'',
      ''/docs/category/-security--firewall'', ''/docs/category/-routing--pbr'', ''/blog''] @
   [Some ''https://github.com/Kintoyyy'', Some ''mailto:kent.oyyyyyyy@gmail.com'']"
  by (simp add: home_dom_def page_defs)

text \<open>C19: Every internal link of the Home page lies under the base URL and is already resolved: when the base is empty or starts with a slash, each rendered href that starts with a slash begins with the base, and resolving it again with useBaseUrl changes nothing.\<close>

theorem Home_links_under_base:
  assumes "sc_baseUrl (siteConfig cx) = [] \<or> hd (sc_baseUrl (siteConfig cx)) = CHR ''/''"
  shows "\<forall>h \<in> set (map (\<lambda>d. attr d ''href'') (concat (map (by_tag ''a'') (home_dom cx)))).
           \<forall>u. h = Some u \<and> u \<noteq> [] \<and> hd u = CHR ''/'' \<longrightarrow>
             take (length (sc_baseUrl (siteConfig cx))) u = sc_baseUrl (siteConfig cx) \<and>
             with_base (sc_baseUrl (siteConfig cx)) u = u"
  unfolding home_hrefs using with_base_idem_prefix [OF _ _ assms] by auto

text \<open>C22: With an empty siteConfig.title the page still mounts, but the document title is '- Network Infrastructure Knowledge Base', the delimiter and a trailing space, and the hero h1 is the emoji and a space alone.\<close>

theorem Home_empty_title:
  assumes "sc_title (siteConfig cx) = []"
  shows "map text_content (concat (map (by_tag ''title'') (home_dom cx))) =
           [''- Network Infrastructure Knowledge Base '' @ sc_titleDelimiter (siteConfig cx) @ '' ''] \<and>
         map text_content (concat (map (by_tag ''h1'') (home_dom cx))) = [utf8 [0x1F4DA] @ '' '']"
  using assms by (simp add: home_dom_def page_defs format_title_def trim_ascii of_char_ascii js_space_def)

text \<open>C23: Every anchor of the Home page has a non-empty text: no link is rendered without an accessible name.\<close>

theorem Home_links_named:
  "list_all (\<lambda>d. text_content d \<noteq> []) (concat (map (by_tag ''a'') (home_dom cx)))"
  by (simp add: home_dom_def page_defs)

subsection \<open>Witnesses\<close>

theorem features_section_cards_witness:
  "features_ok cx0 (site_body cx0) \<and>
   list_all2 (\<lambda>f ds. render (site_body cx0) 2 (description f) = Inr ds) FeatureList FeatureList_descs \<and>
   (case render (site_body cx0) (2 + 8) (features_section cx0 FeatureList) of
      Inr [d] \<Rightarrow> cards_of d | _ \<Rightarrow> []) =
   map (\<lambda>(f, ds). Some (title f, concat (map text_content ds))) (zip FeatureList FeatureList_descs)"
  using HomepageFeatures.features_section_cards [OF site_body_features_ok FeatureList_descs_render]
    site_body_features_ok FeatureList_descs_render
  by simp

theorem HomepageFeatures_cards_witness:
  "features_ok cx0 (site_body cx0) \<and> site_body cx0 CHomepageFeatures = HomepageFeatures cx0 \<and>
   (case render (site_body cx0) 11 (El (Fn CHomepageFeatures) None [] []) of
      Inr [d] \<Rightarrow> cards_of d | _ \<Rightarrow> []) =
   [Some (''Proxmox Virtualization'',
          ''Learn how to effectively manage virtual machines and containers using Proxmox.''),
    Some (''MikroTik Configuration'',
          ''Master MikroTik router configurations for optimal network performance.''),
    Some (''Networking Fundamentals'',
          ''Understand the core concepts of networking, including protocols and topologies.'')]"
proof -
  have h: "site_body cx0 CHomepageFeatures = HomepageFeatures cx0" by simp
  show ?thesis
    using HomepageFeatures.HomepageFeatures_cards [OF site_body_features_ok h] site_body_features_ok h
    by simp
qed

theorem Feature_missing_Svg_witness:
  "features_ok cx0 (site_body cx0) \<and> map_of [(''title'', PStr ''A'')] ''Svg'' = (None :: comp pval option) \<and>
   render (site_body cx0) (0 + 4) (El (Fn CFeature) None [(''title'', PStr ''A'')] []) =
   Inl InvalidElementType"
proof -
  have h: "map_of [(''title'', PStr ''A'')] ''Svg'' = (None :: comp pval option)" by simp
  show ?thesis
    using HomepageFeatures.Feature_missing_Svg [OF site_body_features_ok h] site_body_features_ok h
    by blast
qed

theorem Home_document_title_witness:
  "sc_title (siteConfig cx0) = utf8 [75, 66] \<and> list_all valid_cp [75, 66] \<and>
   [75, 66] \<noteq> ([] :: nat list) \<and> \<not> js_space (hd [75, 66]) \<and>
   map text_content (concat (map (by_tag ''title'') (home_dom cx0))) =
     [''KB - Network Infrastructure Knowledge Base | KB'']"
proof -
  have kb: "''KB'' = utf8 [75, 66]" by code_simp
  have h1: "sc_title (siteConfig cx0) = utf8 [75, 66]" using kb by (simp add: cx0_def)
  have h2: "list_all valid_cp [75, 66]" and h3: "[75, 66] \<noteq> ([] :: nat list)"
    and h4: "\<not> js_space (hd [75, 66])"
    by (simp_all add: valid_cp_def js_space_def)
  show ?thesis
    using Home_document_title [OF h1 h2 h3 h4] h1 h2 h3 h4 kb by (simp add: cx0_def)
qed

theorem HomepageFeatures_outline_witness:
  "(case render (site_body cx0) 11 (El (Fn CHomepageFeatures) None [] []) of
      Inr ds \<Rightarrow> concat (map headings ds) | Inl e \<Rightarrow> []) = [3, 3, 3] \<and>
   \<not> outline_ok 1 [3, 3, 3] \<and> features_ok cx0 (site_body cx0)"
  using HomepageFeatures.HomepageFeatures_outline [OF site_body_features_ok, of cx0] site_body_features_ok
  by simp

theorem HomepageFeatures_svg_role_witness:
  "(case render (site_body cx0) 11 (El (Fn CHomepageFeatures) None [] []) of
      Inr ds \<Rightarrow> map (\<lambda>d. attr d ''role'') (concat (map (by_tag ''svg'') ds)) | Inl e \<Rightarrow> []) =
   replicate 3 (Some ''img'') \<and> features_ok cx0 (site_body cx0)"
  using HomepageFeatures.HomepageFeatures_svg_role [OF site_body_features_ok, of cx0] site_body_features_ok
  by simp

theorem Home_css_frame_witness:
  "map strip_class (home_dom cx0) =
   map strip_class (home_dom (cx0\<lparr>css := (\<lambda>m k. m @ ''_'' @ k)\<rparr>))"
  using Home_css_frame [of cx0 "cx0\<lparr>css := (\<lambda>m k. m @ ''_'' @ k)\<rparr>"] by simp

theorem Home_content_model_witness:
  "list_all (content_ok False False) (home_dom cx0) \<and> home_dom cx0 \<noteq> []"
proof -
  have "home_dom cx0 \<noteq> []" by (simp add: home_dom_def page_defs cx0_def)
  with Home_content_model [of cx0] show ?thesis by simp
qed

theorem Feature_missing_text_witness:
  "features_ok cx0 (site_body cx0) \<and>
   map_of [(''Svg'', PFn (CSvg ''x.svg''))] ''Svg'' = Some (PFn (CSvg ''x.svg'')) \<and>
   map_of [(''Svg'', PFn (CSvg ''x.svg''))] ''title'' = (None :: comp pval option) \<and>
   map_of [(''Svg'', PFn (CSvg ''x.svg''))] ''description'' = (None :: comp pval option) \<and>
   render (site_body cx0) 6 (El (Fn CFeature) None [(''Svg'', PFn (CSvg ''x.svg''))] []) =
    Inr [DElem ''div'' [(''className'', ''col col--4'')]
          [DElem ''div'' [(''className'', ''text--center'')]
             [DElem ''svg'' [(''className'', feature_styles cx0 ''featureSvg''), (''role'', ''img'')] []],
           DElem ''div'' [(''className'', ''text--center padding-horiz--md'')]
             [DElem ''h3'' [] [], DElem ''p'' [] []]]]"
proof -
  have h1: "map_of [(''Svg'', PFn (CSvg ''x.svg''))] ''Svg'' = Some (PFn (CSvg ''x.svg''))" by simp
  have h2: "map_of [(''Svg'', PFn (CSvg ''x.svg''))] ''title'' = (None :: comp pval option)" by simp
  have h3: "map_of [(''Svg'', PFn (CSvg ''x.svg''))] ''description'' = (None :: comp pval option)" by simp
  show ?thesis
    using HomepageFeatures.Feature_missing_text [OF site_body_features_ok h1 h2 h3]
      site_body_features_ok h1 h2 h3
    by blast
qed

theorem Home_links_under_base_witness:
  "take (length (sc_baseUrl (siteConfig cx0))) ''/docs/intro'' = sc_baseUrl (siteConfig cx0) \<and>
   with_base (sc_baseUrl (siteConfig cx0)) ''/docs/intro'' = ''/docs/intro''"
proof -
  have b: "sc_baseUrl (siteConfig cx0) = [] \<or> hd (sc_baseUrl (siteConfig cx0)) = CHR ''/''"
    by (simp add: cx0_def)
  have m: "Some ''/docs/intro'' \<in>
             set (map (\<lambda>d. attr d ''href'') (concat (map (by_tag ''a'') (home_dom cx0))))"
    by (simp add: home_hrefs cx0_def with_base_def has_protocol_def)
  show ?thesis using bspec [OF Home_links_under_base [OF b] m] by simp
qed

theorem Home_empty_title_witness:
  "sc_title (siteConfig cx1) = [] \<and>
   map text_content (concat (map (by_tag ''title'') (home_dom cx1))) =
     [''- Network Infrastructure Knowledge Base | ''] \<and>
   map text_content (concat (map (by_tag ''h1'') (home_dom cx1))) = [utf8 [0x1F4DA] @ '' '']"
proof -
  have e: "sc_title (siteConfig cx1) = []" by (simp add: cx1_def cx0_def)
  show ?thesis using Home_empty_title [OF e] e by (simp add: cx1_def cx0_def)
qed

end
